theory Spec2Isabelle
  imports Main "HOL-Library.AList"
begin

section \<open>Python values\<close>

text \<open>
  The values that travel through \<^verbatim>\<open>panel/pane/plotly.py\<close>: the JSON form of a
  plotly figure (scalars, lists, dicts) and numpy arrays.  A numpy array is its shape
  and its elements in row-major order; an element may be a NaN, whose comparison with
  itself is the one place where \<^verbatim>\<open>!=\<close> is not the negation of structural equality.
  A Python dict is an association list in insertion order.
\<close>

datatype npelem = NInt int | NStr string | NDate nat | NNaN

datatype pyval =
    PNone
  | PBool bool
  | PInt int
  | PStr string
  | PDate nat
  | NdArray "nat list" "npelem list"
  | PyList "pyval list"
  | PyDict "(string \<times> pyval) list"

type_synonym pydict = "(string \<times> pyval) list"

datatype error = AttributeError | TypeError | ValueError | IndexError | KeyError | NameError

text \<open>\<^verbatim>\<open>str(i)\<close> for a list index: the decimal digits of a natural number.\<close>

definition digit_char :: "nat \<Rightarrow> char" where
  "digit_char d = ''0123456789'' ! d"

function str_nat :: "nat \<Rightarrow> string" where
  "str_nat n = (if n < 10 then [digit_char n] else str_nat (n div 10) @ [digit_char (n mod 10)])"
  by pat_completeness auto
termination
  by (relation "measure id") auto

declare str_nat.simps [simp del]

section \<open>Array extractor\<close>

text \<open>
  \<^verbatim>\<open>Plotly._get_sources_for_trace(json, data, parent_path='')\<close> walks the snapshot
  \<^verbatim>\<open>list(json.items())\<close>.  A numpy array is popped from \<^verbatim>\<open>json\<close> and stored as the
  one-element list \<^verbatim>\<open>[array]\<close> under the dotted path; a dict is walked in place; a
  non-empty list whose first element is a dict is walked element by element, and there
  \<^verbatim>\<open>element.items()\<close> raises AttributeError on an element that is no dict.  The
  function mutates \<^verbatim>\<open>json\<close> and \<^verbatim>\<open>data\<close>; the model returns both.
\<close>

definition full_path_of :: "string \<Rightarrow> string \<Rightarrow> string" where
  "full_path_of parent_path key = (if parent_path = [] then key else parent_path @ ''.'' @ key)"

function get_sources_for_trace :: "pydict \<Rightarrow> pydict \<Rightarrow> string \<Rightarrow> error + (pydict \<times> pydict)"
  and get_sources_for_elements :: "pyval list \<Rightarrow> nat \<Rightarrow> pydict \<Rightarrow> string \<Rightarrow> error + (pyval list \<times> pydict)"
where
  "get_sources_for_trace [] data parent_path = Inr ([], data)"
| "get_sources_for_trace ((key, value) # items) data parent_path =
     (let full_path = full_path_of parent_path key in
      case value of
        NdArray sh els \<Rightarrow>
          (case get_sources_for_trace items (AList.update full_path (PyList [value]) data) parent_path of
             Inl e \<Rightarrow> Inl e
           | Inr (items', data') \<Rightarrow> Inr (items', data'))
      | PyDict d \<Rightarrow>
          (case get_sources_for_trace d data full_path of
             Inl e \<Rightarrow> Inl e
           | Inr (d', data1) \<Rightarrow>
               (case get_sources_for_trace items data1 parent_path of
                  Inl e \<Rightarrow> Inl e
                | Inr (items', data') \<Rightarrow> Inr ((key, PyDict d') # items', data')))
      | PyList (PyDict d0 # vs) \<Rightarrow>
          (case get_sources_for_elements (PyDict d0 # vs) 0 data full_path of
             Inl e \<Rightarrow> Inl e
           | Inr (vs', data1) \<Rightarrow>
               (case get_sources_for_trace items data1 parent_path of
                  Inl e \<Rightarrow> Inl e
                | Inr (items', data') \<Rightarrow> Inr ((key, PyList vs') # items', data')))
      | _ \<Rightarrow>
          (case get_sources_for_trace items data parent_path of
             Inl e \<Rightarrow> Inl e
           | Inr (items', data') \<Rightarrow> Inr ((key, value) # items', data')))"
| "get_sources_for_elements [] i data full_path = Inr ([], data)"
| "get_sources_for_elements (element # elements) i data full_path =
     (case element of
        PyDict d \<Rightarrow>
          (case get_sources_for_trace d data (full_path @ ''.'' @ str_nat i) of
             Inl e \<Rightarrow> Inl e
           | Inr (d', data1) \<Rightarrow>
               (case get_sources_for_elements elements (Suc i) data1 full_path of
                  Inl e \<Rightarrow> Inl e
                | Inr (elements', data') \<Rightarrow> Inr (PyDict d' # elements', data')))
      | _ \<Rightarrow> Inl AttributeError)"
  by pat_completeness auto
termination
  by (relation "measure (\<lambda>x. case x of
        Inl (json, _, _) \<Rightarrow> size_list (size_prod (\<lambda>_. 0) size) json
      | Inr (elements, _, _, _) \<Rightarrow> size_list size elements)") auto

text \<open>
  \<^verbatim>\<open>Plotly._get_sources(json)\<close>: one ColumnDataSource per trace of
  \<^verbatim>\<open>json.get('data', [])\<close>, each filled by the extractor from an empty dict.  The
  traces are the dicts that \<^verbatim>\<open>to_plotly_json\<close> returns; they are stripped in place,
  so the model returns them next to the sources.
\<close>

fun get_sources :: "pydict list \<Rightarrow> error + (pydict list \<times> pydict list)" where
  "get_sources [] = Inr ([], [])"
| "get_sources (trace # traces) =
     (case get_sources_for_trace trace [] [] of
        Inl e \<Rightarrow> Inl e
      | Inr (trace', data) \<Rightarrow>
          (case get_sources traces of
             Inl e \<Rightarrow> Inl e
           | Inr (traces', sources) \<Rightarrow> Inr (trace' # traces', data # sources)))"

section \<open>Comparison and truth value of Python values\<close>

text \<open>
  \<^verbatim>\<open>a == b\<close> used as a condition, with \<^verbatim>\<open>None\<close> for a raised exception.  Lists
  and dicts compare their lengths first and then their items in order, a dict looking
  each of its keys up in the other one; an exception raised by an item comparison
  propagates.  An elementwise numpy comparison has no truth value unless it has exactly
  one element (ValueError); two one-element arrays compare by their element, and every
  other comparison in which an array takes part is taken as raising.  Every render
  serialises the figure afresh, so no two containers compared are the same object.
\<close>

definition np_ne :: "npelem \<Rightarrow> npelem \<Rightarrow> bool" where
  "np_ne a b = (a \<noteq> b \<or> a = NNaN)"

function (sequential) py_eq :: "pyval \<Rightarrow> pyval \<Rightarrow> bool option"
  and list_eq :: "pyval list \<Rightarrow> pyval list \<Rightarrow> bool option"
  and dict_eq :: "pydict \<Rightarrow> pydict \<Rightarrow> bool option"
where
  "py_eq (NdArray sh els) (NdArray sh' els') =
     (case (els, els') of ([a], [b]) \<Rightarrow> Some (\<not> np_ne a b) | _ \<Rightarrow> None)"
| "py_eq (NdArray sh els) b = None"
| "py_eq a (NdArray sh els) = None"
| "py_eq (PyList xs) (PyList ys) =
     (if length xs \<noteq> length ys then Some False else list_eq xs ys)"
| "py_eq (PyDict d) (PyDict d') =
     (if length d \<noteq> length d' then Some False else dict_eq d d')"
| "py_eq (PBool x) (PInt y) = Some ((if x then 1 else 0) = y)"
| "py_eq (PInt x) (PBool y) = Some (x = (if y then 1 else 0))"
| "py_eq a b = Some (a = b)"
| "list_eq (x # xs) (y # ys) =
     (case py_eq x y of
        None \<Rightarrow> None
      | Some eq \<Rightarrow> if eq then list_eq xs ys else Some False)"
| "list_eq xs ys = Some True"
| "dict_eq [] d' = Some True"
| "dict_eq ((key, aval) # items) d' =
     (case map_of d' key of
        None \<Rightarrow> Some False
      | Some bval \<Rightarrow>
          (case py_eq aval bval of
             None \<Rightarrow> None
           | Some eq \<Rightarrow> if eq then dict_eq items d' else Some False))"
  by pat_completeness auto
termination
  by (relation "measure (\<lambda>x. case x of
        Inl (a, _) \<Rightarrow> size a
      | Inr (Inl (xs, _)) \<Rightarrow> size_list size xs
      | Inr (Inr (d, _)) \<Rightarrow> size_list (size_prod (\<lambda>_. 0) size) d)") auto

text \<open>\<^verbatim>\<open>a != b\<close> as a condition inside \<^verbatim>\<open>try: ... except Exception: changed = True\<close>.\<close>

definition differs :: "pyval \<Rightarrow> pyval \<Rightarrow> bool" where
  "differs a b = (case py_eq a b of None \<Rightarrow> True | Some eq \<Rightarrow> \<not> eq)"

fun np_truthy :: "npelem \<Rightarrow> bool" where
  "np_truthy (NInt i) = (i \<noteq> 0)"
| "np_truthy (NStr s) = (s \<noteq> [])"
| "np_truthy (NDate d) = True"
| "np_truthy NNaN = True"

fun truthy :: "pyval \<Rightarrow> error + bool" where
  "truthy PNone = Inr False"
| "truthy (PBool b) = Inr b"
| "truthy (PInt i) = Inr (i \<noteq> 0)"
| "truthy (PStr s) = Inr (s \<noteq> [])"
| "truthy (PDate d) = Inr True"
| "truthy (NdArray sh els) = (case els of [e] \<Rightarrow> Inr (np_truthy e) | _ \<Rightarrow> Inl ValueError)"
| "truthy (PyList vs) = Inr (vs \<noteq> [])"
| "truthy (PyDict d) = Inr (d \<noteq> [])"

section \<open>Columnar buffers\<close>

text \<open>
  \<^verbatim>\<open>Plotly._update_data_sources(cds, trace)\<close>.  A ColumnDataSource is its \<^verbatim>\<open>data\<close>
  dict.  Inside the \<^verbatim>\<open>try\<close>, \<^verbatim>\<open>old = cds.data.get(key)[0]\<close> is an array only when the
  stored column is a list that starts with an array, or an array of two or more
  dimensions with a first row; a missing key (\<^verbatim>\<open>None[0]\<close>), an empty list, a
  one-dimensional array (its first item is a numpy scalar, not an array) and every
  other stored value end in \<^verbatim>\<open>update_array = True\<close>, by a type that differs or by the
  \<^verbatim>\<open>except\<close> branch.
\<close>

definition array_changed :: "pyval option \<Rightarrow> pyval \<Rightarrow> bool" where
  "array_changed old_col new =
     (case new of
        NdArray nsh nels \<Rightarrow>
          (case old_col of
             Some (PyList (NdArray osh oels # _)) \<Rightarrow>
               nsh \<noteq> osh \<or> list_ex (\<lambda>(a, b). np_ne a b) (zip nels oels)
           | Some (NdArray (n # d # osh) oels) \<Rightarrow>
               n = 0 \<or> nsh \<noteq> d # osh
                 \<or> list_ex (\<lambda>(a, b). np_ne a b) (zip nels (take (prod_list (d # osh)) oels))
           | _ \<Rightarrow> True)
      | _ \<Rightarrow> True)"

fun update_columns :: "pydict \<Rightarrow> pydict \<Rightarrow> bool \<Rightarrow> error + (bool \<times> pydict)" where
  "update_columns [] cds update_sources = Inr (update_sources, cds)"
| "update_columns ((key, new_col) # items) cds update_sources =
     (case new_col of
        PyList (new # _) \<Rightarrow>
          (if array_changed (map_of cds key) new
           then update_columns items (AList.update key (PyList [new]) cds) True
           else update_columns items cds update_sources)
      | PyList [] \<Rightarrow> Inl IndexError
      | _ \<Rightarrow> Inl TypeError)"

definition update_data_sources :: "pydict \<Rightarrow> pydict \<Rightarrow> error + (bool \<times> pydict \<times> pydict)" where
  "update_data_sources cds trace =
     (case get_sources_for_trace trace [] [] of
        Inl e \<Rightarrow> Inl e
      | Inr (trace', trace_arrays) \<Rightarrow>
          (case update_columns trace_arrays cds False of
             Inl e \<Rightarrow> Inl e
           | Inr (update_sources, cds') \<Rightarrow> Inr (update_sources, cds', trace')))"

section \<open>Figures, panes and widget models\<close>

text \<open>
  A figure is the JSON that \<^verbatim>\<open>to_plotly_json\<close> returns for it: the list of trace
  dicts and the layout dict.  The pane's \<^verbatim>\<open>object\<close> is held as the figure that
  \<^verbatim>\<open>_to_figure\<close> makes of it.  The widget model (PlotlyPlot) has the properties the
  pane writes.  Functions of panel.util, plotly and the builtins that the module calls
  and that are not part of it are parameters, collected in \<open>extern\<close>.
\<close>

record figure =
  fig_data :: "pydict list"
  fig_layout :: pydict

record PlotlyPlot =
  data :: "pydict list"
  layout :: pydict
  data_sources :: "pydict list"
  model_sizing_mode :: "string option"
  render_count :: int

record extern =
  isdatetime :: "pyval \<Rightarrow> bool"
  py_str :: "pyval \<Rightarrow> string"
  astype_str :: "npelem \<Rightarrow> string"
  plotly_restyle :: "figure \<Rightarrow> pyval list \<Rightarrow> error + figure"
  plotly_relayout :: "figure \<Rightarrow> pydict \<Rightarrow> error + figure"
  normalize_trace_indexes :: "figure \<Rightarrow> pyval \<Rightarrow> pyval"

record Plotly =
  object :: "figure option"
  sizing_mode :: "string option"
  sizing_mode_default :: "string option"
  pane_render_count :: int
  figure_ref :: "figure option"
  restyle_data :: "pyval list option"
  relayout_data :: "pydict option"
  models :: "(string \<times> PlotlyPlot) list"

section \<open>Datetime normalisation\<close>

text \<open>
  \<^verbatim>\<open>Plotly._plotly_json_wrapper(fig)\<close>: for every trace and every key of the trace, a
  value that \<^verbatim>\<open>isdatetime\<close> accepts is replaced, an array by \<^verbatim>\<open>arr.astype(str)\<close> and
  anything else by \<^verbatim>\<open>[str(v) for v in arr]\<close>, which iterates a list over its items, a
  string over its characters, a dict over its keys, and raises TypeError on a value
  that cannot be iterated.
\<close>

definition normalize_value :: "extern \<Rightarrow> pyval \<Rightarrow> error + pyval" where
  "normalize_value env arr =
     (if isdatetime env arr then
        (case arr of
           NdArray sh els \<Rightarrow> Inr (NdArray sh (map (\<lambda>e. NStr (astype_str env e)) els))
         | PyList vs \<Rightarrow> Inr (PyList (map (\<lambda>v. PStr (py_str env v)) vs))
         | PStr s \<Rightarrow> Inr (PyList (map (\<lambda>c. PStr (py_str env (PStr [c]))) s))
         | PyDict d \<Rightarrow> Inr (PyList (map (\<lambda>(k, v). PStr (py_str env (PStr k))) d))
         | _ \<Rightarrow> Inl TypeError)
      else Inr arr)"

fun normalize_trace :: "extern \<Rightarrow> pydict \<Rightarrow> error + pydict" where
  "normalize_trace env [] = Inr []"
| "normalize_trace env ((key, value) # items) =
     (case normalize_value env value of
        Inl e \<Rightarrow> Inl e
      | Inr arr \<Rightarrow>
          (case normalize_trace env items of
             Inl e \<Rightarrow> Inl e
           | Inr items' \<Rightarrow> Inr ((key, arr) # items')))"

fun normalize_traces :: "extern \<Rightarrow> pydict list \<Rightarrow> error + pydict list" where
  "normalize_traces env [] = Inr []"
| "normalize_traces env (trace # traces) =
     (case normalize_trace env trace of
        Inl e \<Rightarrow> Inl e
      | Inr trace' \<Rightarrow>
          (case normalize_traces env traces of
             Inl e \<Rightarrow> Inl e
           | Inr traces' \<Rightarrow> Inr (trace' # traces')))"

definition plotly_json_wrapper :: "extern \<Rightarrow> figure \<Rightarrow> error + figure" where
  "plotly_json_wrapper env fig =
     (case normalize_traces env (fig_data fig) of
        Inl e \<Rightarrow> Inl e
      | Inr data' \<Rightarrow> Inr (fig\<lparr>fig_data := data'\<rparr>))"

section \<open>Initial render\<close>

text \<open>
  \<^verbatim>\<open>Plotly._init_params\<close>, as far as it fills the properties of the new model.  The
  key \<^verbatim>\<open>sizing_mode\<close> is the pane's own value (left out of \<^verbatim>\<open>params\<close> when it is
  None), overwritten by \<^verbatim>\<open>'stretch_both'\<close> when \<^verbatim>\<open>layout.get('autosize')\<close> is true and
  the pane's sizing mode is the default.
\<close>

definition init_params :: "extern \<Rightarrow> Plotly \<Rightarrow> error + PlotlyPlot" where
  "init_params env pane =
     (case (case object pane of
              None \<Rightarrow> Inr ([], [], [])
            | Some fig \<Rightarrow>
                (case plotly_json_wrapper env fig of
                   Inl e \<Rightarrow> Inl e
                 | Inr json \<Rightarrow>
                     (case get_sources (fig_data json) of
                        Inl e \<Rightarrow> Inl e
                      | Inr (data', sources) \<Rightarrow> Inr (data', sources, fig_layout json)))) of
        Inl e \<Rightarrow> Inl e
      | Inr (data', sources, layout') \<Rightarrow>
          (case truthy (case map_of layout' ''autosize'' of None \<Rightarrow> PNone | Some a \<Rightarrow> a) of
             Inl e \<Rightarrow> Inl e
           | Inr autosize \<Rightarrow>
               Inr \<lparr>data = data', layout = layout', data_sources = sources,
                    model_sizing_mode =
                      (if autosize \<and> sizing_mode pane = sizing_mode_default pane
                       then Some ''stretch_both'' else sizing_mode pane),
                    render_count = pane_render_count pane\<rparr>))"

section \<open>Diff engine\<close>

text \<open>
  The first loop of \<^verbatim>\<open>Plotly._update\<close>: trace \<open>i\<close> reuses \<^verbatim>\<open>model.data_sources[i]\<close>,
  which \<^verbatim>\<open>_update_data_sources\<close> mutates in place, or fills a new ColumnDataSource
  that is appended to \<^verbatim>\<open>new_sources\<close>.
\<close>

fun update_sources_loop ::
  "pydict list \<Rightarrow> nat \<Rightarrow> pydict list \<Rightarrow> pydict list \<Rightarrow> bool
    \<Rightarrow> error + (pydict list \<times> pydict list \<times> pydict list \<times> bool)" where
  "update_sources_loop [] i sources new_sources update_sources =
     Inr ([], sources, new_sources, update_sources)"
| "update_sources_loop (trace # traces) i sources new_sources update_sources =
     (case update_data_sources (if i < length sources then sources ! i else []) trace of
        Inl e \<Rightarrow> Inl e
      | Inr (u, cds, trace') \<Rightarrow>
          (case update_sources_loop traces (Suc i)
                  (if i < length sources then sources[i := cds] else sources)
                  (if i < length sources then new_sources else new_sources @ [cds])
                  (u \<or> update_sources) of
             Inl e \<Rightarrow> Inl e
           | Inr (traces', r) \<Rightarrow> Inr (trace' # traces', r)))"

text \<open>The second loop: traces against \<^verbatim>\<open>model.data\<close>, the key \<^verbatim>\<open>uid\<close> left out.\<close>

definition without_uid :: "pydict \<Rightarrow> pyval" where
  "without_uid d = PyDict (filter (\<lambda>(k, v). k \<noteq> ''uid'') d)"

fun data_changed :: "pydict list \<Rightarrow> pydict list \<Rightarrow> bool" where
  "data_changed (new # traces) (old # olds) =
     (if differs (without_uid new) (without_uid old) then True else data_changed traces olds)"
| "data_changed traces olds = False"

record updates =
  upd_sizing_mode :: "string option"
  upd_data_sources :: "pydict list option"
  upd_data :: "pydict list option"
  upd_layout :: "pydict option"

definition sizing_update :: "Plotly \<Rightarrow> PlotlyPlot \<Rightarrow> pydict \<Rightarrow> error + string option" where
  "sizing_update pane model layout' =
     (if sizing_mode pane = sizing_mode_default pane then
        (case map_of layout' ''autosize'' of
           None \<Rightarrow> Inr None
         | Some a \<Rightarrow>
             (case truthy a of
                Inl e \<Rightarrow> Inl e
              | Inr autosize \<Rightarrow>
                  Inr (if autosize \<and> model_sizing_mode model \<noteq> Some ''stretch_both''
                       then Some ''stretch_both''
                       else if \<not> autosize \<and> model_sizing_mode model \<noteq> Some ''fixed''
                       then Some ''fixed'' else None)))
      else Inr None)"

text \<open>
  The update set of \<^verbatim>\<open>Plotly._update\<close> for a figure, with the data sources as the
  first loop left them and the flag \<^verbatim>\<open>update_sources\<close>.
\<close>

definition compute_updates ::
  "Plotly \<Rightarrow> PlotlyPlot \<Rightarrow> figure \<Rightarrow> error + (updates \<times> pydict list \<times> bool)" where
  "compute_updates pane model json =
     (case update_sources_loop (fig_data json) 0 (data_sources model) [] False of
        Inl e \<Rightarrow> Inl e
      | Inr (traces, sources, new_sources, update_sources) \<Rightarrow>
          (let update_layout = differs (PyDict (layout model)) (PyDict (fig_layout json));
               update_data = (if length (data model) \<noteq> length traces then True
                              else data_changed traces (data model))
           in case sizing_update pane model (fig_layout json) of
                Inl e \<Rightarrow> Inl e
              | Inr sm \<Rightarrow>
                  Inr (\<lparr>upd_sizing_mode = sm,
                        upd_data_sources = (if new_sources \<noteq> [] then Some (sources @ new_sources) else None),
                        upd_data = (if update_data then Some traces else None),
                        upd_layout = (if update_layout then Some (fig_layout json) else None)\<rparr>,
                       sources, update_sources)))"

definition no_updates :: "updates \<Rightarrow> bool" where
  "no_updates u = (upd_sizing_mode u = None \<and> upd_data_sources u = None
                    \<and> upd_data u = None \<and> upd_layout u = None)"

text \<open>\<^verbatim>\<open>model.update(**updates)\<close> sets the properties that are named.\<close>

definition apply_updates :: "updates \<Rightarrow> PlotlyPlot \<Rightarrow> PlotlyPlot" where
  "apply_updates u model =
     model\<lparr>model_sizing_mode := (case upd_sizing_mode u of None \<Rightarrow> model_sizing_mode model | Some s \<Rightarrow> Some s),
           data_sources := (case upd_data_sources u of None \<Rightarrow> data_sources model | Some s \<Rightarrow> s),
           data := (case upd_data u of None \<Rightarrow> data model | Some d \<Rightarrow> d),
           layout := (case upd_layout u of None \<Rightarrow> layout model | Some l \<Rightarrow> l)\<rparr>"

definition plotly_update :: "extern \<Rightarrow> Plotly \<Rightarrow> PlotlyPlot \<Rightarrow> error + PlotlyPlot" where
  "plotly_update env pane model =
     (case object pane of
        None \<Rightarrow> Inr (model\<lparr>data := [], layout := [], render_count := render_count model + 1\<rparr>)
      | Some fig \<Rightarrow>
          (case plotly_json_wrapper env fig of
             Inl e \<Rightarrow> Inl e
           | Inr json \<Rightarrow>
               (case compute_updates pane model json of
                  Inl e \<Rightarrow> Inl e
                | Inr (u, sources, update_sources) \<Rightarrow>
                    (let model1 = apply_updates u (model\<lparr>data_sources := sources\<rparr>)
                     in Inr (if \<not> no_updates u \<or> update_sources
                             then model1\<lparr>render_count := render_count model1 + 1\<rparr>
                             else model1)))))"

section \<open>Event router\<close>

text \<open>
  \<^verbatim>\<open>_update_figure_style\<close> and \<^verbatim>\<open>_update_figure_layout\<close> call the figure's own
  \<^verbatim>\<open>plotly_restyle(*restyle_data)\<close> and \<^verbatim>\<open>plotly_relayout(relayout_data)\<close>, which
  mutate the figure held in \<^verbatim>\<open>_figure\<close>.
\<close>

definition update_figure_style :: "extern \<Rightarrow> Plotly \<Rightarrow> error + Plotly" where
  "update_figure_style env pane =
     (case figure_ref pane of
        None \<Rightarrow> Inr pane
      | Some fig \<Rightarrow>
          (case restyle_data pane of
             None \<Rightarrow> Inr pane
           | Some args \<Rightarrow>
               (case plotly_restyle env fig args of
                  Inl e \<Rightarrow> Inl e
                | Inr fig' \<Rightarrow> Inr (pane\<lparr>figure_ref := Some fig'\<rparr>))))"

definition update_figure_layout :: "extern \<Rightarrow> Plotly \<Rightarrow> error + Plotly" where
  "update_figure_layout env pane =
     (case figure_ref pane of
        None \<Rightarrow> Inr pane
      | Some fig \<Rightarrow>
          (case relayout_data pane of
             None \<Rightarrow> Inr pane
           | Some args \<Rightarrow>
               (case plotly_relayout env fig args of
                  Inl e \<Rightarrow> Inl e
                | Inr fig' \<Rightarrow> Inr (pane\<lparr>figure_ref := Some fig'\<rparr>))))"

text \<open>
  \<^verbatim>\<open>_send_update_msg(restyle_data, relayout_data, trace_indexes, source_view_id)\<close>.
  The result is the list of messages handed to \<^verbatim>\<open>_apply_update\<close>, each with the
  \<^verbatim>\<open>ref\<close> of the view it goes to, in the order of \<^verbatim>\<open>self._models.items()\<close>.  A
  \<^verbatim>\<open>source_view_id\<close> is true as a condition when it is neither None nor empty.
\<close>

definition update_msg :: "pydict \<Rightarrow> pydict \<Rightarrow> pyval \<Rightarrow> pydict" where
  "update_msg restyle relayout trace_indexes =
     (if relayout \<noteq> [] then [(''relayout'', PyDict relayout)] else [])
     @ (if restyle \<noteq> []
        then [(''restyle'', PyDict [(''data'', PyDict restyle), (''traces'', trace_indexes)])]
        else [])"

definition send_update_msg ::
  "extern \<Rightarrow> Plotly \<Rightarrow> pydict \<Rightarrow> pydict \<Rightarrow> pyval \<Rightarrow> string option
    \<Rightarrow> error + (string \<times> pydict) list" where
  "send_update_msg env pane restyle relayout trace_indexes source_view_id =
     (if source_view_id \<noteq> None \<and> source_view_id \<noteq> Some [] then Inr []
      else case figure_ref pane of
             None \<Rightarrow> Inl AttributeError
           | Some fig \<Rightarrow>
               Inr (map (\<lambda>(ref, m).
                          (ref, update_msg restyle relayout (normalize_trace_indexes env fig trace_indexes)))
                        (models pane)))"

definition send_relayout_msg ::
  "extern \<Rightarrow> Plotly \<Rightarrow> pydict \<Rightarrow> string option \<Rightarrow> error + (string \<times> pydict) list" where
  "send_relayout_msg env pane relayout source_view_id =
     send_update_msg env pane [] relayout PNone source_view_id"

definition send_restyle_msg ::
  "extern \<Rightarrow> Plotly \<Rightarrow> pydict \<Rightarrow> pyval \<Rightarrow> string option \<Rightarrow> error + (string \<times> pydict) list" where
  "send_restyle_msg env pane restyle trace_indexes source_view_id =
     send_update_msg env pane restyle [] trace_indexes source_view_id"

section \<open>Tab-visibility patch\<close>

text \<open>
  The composed widget tree: a plot widget, a Tabs with its active index and the
  children of its tabs, or any other container.  Every widget has its id.

  Modelled from the spec: bokeh's \<^verbatim>\<open>select\<close> and \<^verbatim>\<open>select_one\<close> are not part of the
  module.  \<^verbatim>\<open>root.select({'type': T})\<close> is read as the widgets of type \<open>T\<close> in the tree
  under \<open>root\<close> (here in pre-order), \<^verbatim>\<open>w.select_one({'id': i})\<close> as the widget with id
  \<open>i\<close> being in the tree under \<open>w\<close>, and \<^verbatim>\<open>tabs.select_one(pt)\<close> as the container
  \<open>pt\<close> being in the tree under \<open>tabs\<close>.
\<close>

datatype widget =
    PlotlyPlotW nat
  | TabsW nat nat "widget list"
  | BoxW nat "widget list"

fun wid :: "widget \<Rightarrow> nat" where
  "wid (PlotlyPlotW i) = i"
| "wid (TabsW i a ts) = i"
| "wid (BoxW i cs) = i"

fun references :: "widget \<Rightarrow> widget list" where
  "references (PlotlyPlotW i) = [PlotlyPlotW i]"
| "references (TabsW i a ts) = TabsW i a ts # concat (map references ts)"
| "references (BoxW i cs) = BoxW i cs # concat (map references cs)"

fun is_tabs :: "widget \<Rightarrow> bool" where
  "is_tabs (TabsW i a ts) = True"
| "is_tabs w = False"

fun is_plotly :: "widget \<Rightarrow> bool" where
  "is_plotly (PlotlyPlotW i) = True"
| "is_plotly w = False"

definition select_one_id :: "widget \<Rightarrow> nat \<Rightarrow> bool" where
  "select_one_id w i = list_ex (\<lambda>r. wid r = i) (references w)"

fun tabs_of :: "widget \<Rightarrow> widget list" where
  "tabs_of (TabsW i a ts) = ts"
| "tabs_of w = []"

fun active :: "widget \<Rightarrow> nat" where
  "active (TabsW i a ts) = a"
| "active w = 0"

record CustomJS =
  cb_code :: string
  cb_model :: nat
  cb_i :: nat

text \<open>
  What the hook mutates: the \<^verbatim>\<open>change:active\<close> callbacks of each Tabs and the
  \<^verbatim>\<open>visible\<close> flag of each plot widget, both keyed by widget id.
\<close>

record patch_state =
  callbacks :: "nat \<Rightarrow> CustomJS list"
  visible :: "nat \<Rightarrow> bool"

definition code :: string where
  "code = ''model.visible = cb_obj.active == i;''"

text \<open>
  \<^verbatim>\<open>for i, tab in enumerate(parent_tab.tabs): if tab.select_one(...): break\<close> leaves
  \<open>i\<close> at the first tab that holds the model, at the last index when none does, and
  as it was before the loop when there is no tab.
\<close>

fun first_tab :: "widget list \<Rightarrow> nat \<Rightarrow> nat \<Rightarrow> nat option" where
  "first_tab [] model k = None"
| "first_tab (tab # tabs) model k =
     (if select_one_id tab model then Some k else first_tab tabs model (Suc k))"

definition tab_index :: "widget \<Rightarrow> nat \<Rightarrow> nat option \<Rightarrow> nat option" where
  "tab_index parent_tab model i =
     (case first_tab (tabs_of parent_tab) model 0 of
        Some k \<Rightarrow> Some k
      | None \<Rightarrow> if tabs_of parent_tab = [] then i else Some (length (tabs_of parent_tab) - 1))"

definition parent_tabs_of :: "widget list \<Rightarrow> nat \<Rightarrow> widget list" where
  "parent_tabs_of tabs_models model = filter (\<lambda>tabs. select_one_id tabs model) tabs_models"

definition parent_tab_of :: "widget list \<Rightarrow> widget option" where
  "parent_tab_of parent_tabs =
     find (\<lambda>tabs. \<not> list_ex (\<lambda>pt. select_one_id tabs (wid pt))
                       (filter (\<lambda>pt. wid pt \<noteq> wid tabs) parent_tabs))
          parent_tabs"

text \<open>
  The loop of \<^verbatim>\<open>_patch_tabs_plotly\<close> over the plot widgets.  A plot widget with no
  parent Tabs ends the hook (\<^verbatim>\<open>return\<close>); one whose callback is already installed has
  the callback's \<open>i\<close> refreshed (\<^verbatim>\<open>continue\<close>); otherwise a callback is added and the
  widget's \<^verbatim>\<open>visible\<close> is set.
\<close>

fun patch_loop :: "widget list \<Rightarrow> nat list \<Rightarrow> nat option \<Rightarrow> patch_state \<Rightarrow> error + patch_state" where
  "patch_loop tabs_models [] i st = Inr st"
| "patch_loop tabs_models (model # plotly_models) i st =
     (case parent_tab_of (parent_tabs_of tabs_models model) of
        None \<Rightarrow> Inr st
      | Some parent_tab \<Rightarrow>
          (case tab_index parent_tab model i of
             None \<Rightarrow> Inl NameError
           | Some k \<Rightarrow>
               (let cbs = callbacks st (wid parent_tab);
                    updated = list_ex (\<lambda>cb. cb_code cb = code \<and> cb_model cb = model) cbs
                in if updated
                   then patch_loop tabs_models plotly_models (Some k)
                          (st\<lparr>callbacks := (callbacks st)(wid parent_tab :=
                                map (\<lambda>cb. if cb_code cb = code \<and> cb_model cb = model
                                           then cb\<lparr>cb_i := k\<rparr> else cb) cbs)\<rparr>)
                   else patch_loop tabs_models plotly_models (Some k)
                          (st\<lparr>callbacks := (callbacks st)(wid parent_tab :=
                                cbs @ [\<lparr>cb_code = code, cb_model = model, cb_i = k\<rparr>]),
                              visible := (visible st)(model := (active parent_tab = k))\<rparr>))))"

definition patch_tabs_plotly :: "widget \<Rightarrow> patch_state \<Rightarrow> error + patch_state" where
  "patch_tabs_plotly root st =
     patch_loop (filter is_tabs (references root))
                (map wid (filter is_plotly (references root))) None st"

section \<open>An instance of the external functions\<close>

text \<open>
  Modelled from the spec: \<^verbatim>\<open>isdatetime\<close> of panel.util is not part of the module.  The
  spec has the pass convert "any array or list value at a leaf whose element type is a
  date/time type": an array or a list with elements, all of them datetimes.
\<close>

fun is_ndate :: "npelem \<Rightarrow> bool" where
  "is_ndate (NDate d) = True"
| "is_ndate e = False"

fun is_pdate :: "pyval \<Rightarrow> bool" where
  "is_pdate (PDate d) = True"
| "is_pdate v = False"

fun isdatetime_spec :: "pyval \<Rightarrow> bool" where
  "isdatetime_spec (NdArray sh els) = (els \<noteq> [] \<and> list_all is_ndate els)"
| "isdatetime_spec (PyList vs) = (vs \<noteq> [] \<and> list_all is_pdate vs)"
| "isdatetime_spec v = False"

text \<open>
  The instance used for the concrete figures below.  A datetime is printed as its
  number; the figure's own \<^verbatim>\<open>plotly_restyle\<close>, \<^verbatim>\<open>plotly_relayout\<close> and
  \<^verbatim>\<open>_normalize_trace_indexes\<close> stand as identities.  The theorems hold for every
  instance.
\<close>

definition sample_env :: extern where
  "sample_env =
     \<lparr>isdatetime = isdatetime_spec,
      py_str = (\<lambda>v. case v of PDate d \<Rightarrow> str_nat d | PStr s \<Rightarrow> s | _ \<Rightarrow> ''object''),
      astype_str = (\<lambda>e. case e of NDate d \<Rightarrow> str_nat d | NStr s \<Rightarrow> s | _ \<Rightarrow> ''number''),
      plotly_restyle = (\<lambda>fig args. Inr fig),
      plotly_relayout = (\<lambda>fig args. Inr fig),
      normalize_trace_indexes = (\<lambda>fig trace_indexes. trace_indexes)\<rparr>"

definition empty_model :: PlotlyPlot where
  "empty_model = \<lparr>data = [], layout = [], data_sources = [], model_sizing_mode = None, render_count = 0\<rparr>"

definition sample_pane :: "figure option \<Rightarrow> Plotly" where
  "sample_pane obj =
     \<lparr>object = obj, sizing_mode = None, sizing_mode_default = None, pane_render_count = 0,
      figure_ref = obj, restyle_data = None, relayout_data = None,
      models = [(''v1'', empty_model), (''v2'', empty_model)]\<rparr>"

section \<open>Figures that compare equal to themselves\<close>

text \<open>
  A value is comparable when it holds no numpy array and every dict in it has distinct
  keys: then \<^verbatim>\<open>==\<close> on it does not raise.  A column is stable when it is the
  one-element list of an array without NaN, as the extractor stores it for every array
  that has none.  A figure is stable when its layout is comparable and each trace,
  once stripped of its arrays, is comparable and has stable columns.
\<close>

fun comparable :: "pyval \<Rightarrow> bool" where
  "comparable (NdArray sh els) = False"
| "comparable (PyList vs) = list_all comparable vs"
| "comparable (PyDict d) = (distinct (map fst d) \<and> list_all (\<lambda>kv. comparable (snd kv)) d)"
| "comparable v = True"

fun stable_column :: "pyval \<Rightarrow> bool" where
  "stable_column (PyList [NdArray sh els]) = (NNaN \<notin> set els)"
| "stable_column v = False"

definition stable_trace :: "pydict \<Rightarrow> bool" where
  "stable_trace trace =
     (case get_sources_for_trace trace [] [] of
        Inl e \<Rightarrow> False
      | Inr (trace', trace_arrays) \<Rightarrow>
          comparable (PyDict trace') \<and> list_all (\<lambda>kv. stable_column (snd kv)) trace_arrays)"

definition stable_figure :: "figure \<Rightarrow> bool" where
  "stable_figure json = (list_all stable_trace (fig_data json) \<and> comparable (PyDict (fig_layout json)))"

text \<open>
  Where the first loop of \<^verbatim>\<open>_update\<close> stands at trace \<open>i\<close>: no source was added
  yet, or the sources and the added ones together are \<open>i\<close> many.
\<close>

definition loop_pre :: "nat \<Rightarrow> pydict list \<Rightarrow> pydict list \<Rightarrow> bool" where
  "loop_pre i S N = ((i \<le> length S \<and> N = []) \<or> length S + length N = i)"

text \<open>
  The sizing mode that the first \<^verbatim>\<open>_update\<close> after \<^verbatim>\<open>_init_params\<close> sets: the initial
  render acts on a true autosize flag only, so with the pane's sizing mode at its
  default (other than \<^verbatim>\<open>fixed\<close>) and a false autosize flag in the layout, the update
  that follows sets \<^verbatim>\<open>fixed\<close>.
\<close>

definition fixed_after_init :: "Plotly \<Rightarrow> pydict \<Rightarrow> string option" where
  "fixed_after_init pane layout' =
     (if sizing_mode pane = sizing_mode_default pane \<and> sizing_mode pane \<noteq> Some ''fixed''
         \<and> (case map_of layout' ''autosize'' of None \<Rightarrow> False | Some a \<Rightarrow> truthy a = Inr False)
      then Some ''fixed'' else None)"

definition bar_trace :: pydict where
  "bar_trace = [(''type'', PStr ''bar''), (''y'', NdArray [2] [NInt 1, NInt 2])]"

text \<open>String-typed: an array of strings or a list of strings.\<close>

fun is_nstr :: "npelem \<Rightarrow> bool" where
  "is_nstr (NStr s) = True"
| "is_nstr e = False"

fun is_pstr :: "pyval \<Rightarrow> bool" where
  "is_pstr (PStr s) = True"
| "is_pstr v = False"

fun string_typed :: "pyval \<Rightarrow> bool" where
  "string_typed (NdArray sh els) = list_all is_nstr els"
| "string_typed (PyList vs) = list_all is_pstr vs"
| "string_typed v = False"

definition no_callbacks :: patch_state where
  "no_callbacks = \<lparr>callbacks = (\<lambda>w. []), visible = (\<lambda>w. True)\<rparr>"

section \<open>Extraction of a two-column trace\<close>

text \<open>
  C3.  The figure whose single trace is \<^verbatim>\<open>{x: array([1,2,3]), y: array([4,5,6])}\<close>,
  with the empty layout: the extractor leaves the trace as the empty dict and the one
  buffer is \<^verbatim>\<open>{x: [array([1,2,3])], y: [array([4,5,6])]}\<close>.  The layout takes no part
  in the extraction.
\<close>

theorem extract_xy_trace:
  "get_sources [[(''x'', NdArray [3] [NInt 1, NInt 2, NInt 3]),
                 (''y'', NdArray [3] [NInt 4, NInt 5, NInt 6])]]
   = Inr ([[]],
          [[(''x'', PyList [NdArray [3] [NInt 1, NInt 2, NInt 3]]),
            (''y'', PyList [NdArray [3] [NInt 4, NInt 5, NInt 6]])]])"
  by (simp add: full_path_of_def)

section \<open>Update of a pane without an object\<close>

text \<open>
  C10.  When the pane's object is None, \<^verbatim>\<open>_update\<close> returns, the model's trace list
  is the empty list and its layout the empty dict, the render count has grown by
  exactly one, and the data sources are the ones the model had.
\<close>

theorem update_without_object:
  "object pane = None \<Longrightarrow>
   \<exists>model'. plotly_update env pane model = Inr model'
     \<and> data model' = [] \<and> layout model' = []
     \<and> render_count model' = render_count model + 1
     \<and> data_sources model' = data_sources model"
  by (simp add: plotly_update_def)

theorem update_without_object_witness:
  "object (sample_pane None) = None
   \<and> (\<exists>model'. plotly_update sample_env (sample_pane None) empty_model = Inr model'
     \<and> data model' = [] \<and> layout model' = []
     \<and> render_count model' = render_count empty_model + 1
     \<and> data_sources model' = data_sources empty_model)"
  using update_without_object [of "sample_pane None" sample_env empty_model]
  by (simp add: sample_pane_def)

section \<open>Inbound events without a figure\<close>

text \<open>
  C9.  With \<^verbatim>\<open>_figure\<close> None, the restyle handler and the relayout handler return
  without raising and leave the pane as it was, whatever the event data are.
\<close>

theorem handlers_without_figure:
  "figure_ref pane = None \<Longrightarrow>
   update_figure_style env pane = Inr pane \<and> update_figure_layout env pane = Inr pane"
  by (simp add: update_figure_style_def update_figure_layout_def)

theorem handlers_without_figure_witness:
  "figure_ref (sample_pane None\<lparr>restyle_data := Some [PyDict [(''opacity'', PInt 1)]]\<rparr>) = None
   \<and> update_figure_style sample_env (sample_pane None\<lparr>restyle_data := Some [PyDict [(''opacity'', PInt 1)]]\<rparr>)
       = Inr (sample_pane None\<lparr>restyle_data := Some [PyDict [(''opacity'', PInt 1)]]\<rparr>)
   \<and> update_figure_layout sample_env (sample_pane None\<lparr>restyle_data := Some [PyDict [(''opacity'', PInt 1)]]\<rparr>)
       = Inr (sample_pane None\<lparr>restyle_data := Some [PyDict [(''opacity'', PInt 1)]]\<rparr>)"
  using handlers_without_figure [of "sample_pane None\<lparr>restyle_data := Some [PyDict [(''opacity'', PInt 1)]]\<rparr>" sample_env]
  by (simp add: sample_pane_def)

section \<open>Broadcast of a figure mutation\<close>

text \<open>
  C1, as stated, fails: a relayout that carries the source view id \<^verbatim>\<open>v1\<close>, on a pane
  with the views \<^verbatim>\<open>v1\<close> and \<^verbatim>\<open>v2\<close>, is sent to no view at all, so \<^verbatim>\<open>v2\<close>, which
  is not the originator, does not receive it.
\<close>

theorem send_update_msg_skips_all_views:
  "send_update_msg sample_env (sample_pane (Some \<lparr>fig_data = [], fig_layout = []\<rparr>))
      [] [(''title'', PStr ''t'')] PNone (Some ''v1'') = Inr []
   \<and> map fst (models (sample_pane (Some \<lparr>fig_data = [], fig_layout = []\<rparr>))) = [''v1'', ''v2'']"
  by (simp add: send_update_msg_def sample_pane_def)

text \<open>
  C1, amended.  A mutation that carries a source view id (not None, not empty) is
  pushed to no view.  A mutation without one, on a pane that holds a figure, is pushed
  to every view, once each and in the order of the pane's models, with the same
  message.
\<close>

theorem send_update_msg_all_or_none:
  "(source_view_id \<noteq> None \<and> source_view_id \<noteq> Some [] \<longrightarrow>
      send_update_msg env pane restyle relayout trace_indexes source_view_id = Inr [])
   \<and> ((source_view_id = None \<or> source_view_id = Some []) \<and> figure_ref pane = Some fig \<longrightarrow>
      (\<exists>out. send_update_msg env pane restyle relayout trace_indexes source_view_id = Inr out
         \<and> map fst out = map fst (models pane)
         \<and> (\<forall>m \<in> set out. snd m = update_msg restyle relayout (normalize_trace_indexes env fig trace_indexes))))"
  by (auto simp: send_update_msg_def)

theorem send_update_msg_all_or_none_witness:
  "send_update_msg sample_env (sample_pane (Some \<lparr>fig_data = [], fig_layout = []\<rparr>))
      [] [(''title'', PStr ''t'')] PNone (Some ''v2'') = Inr []
   \<and> (\<exists>out. send_update_msg sample_env (sample_pane (Some \<lparr>fig_data = [], fig_layout = []\<rparr>))
      [] [(''title'', PStr ''t'')] PNone None = Inr out
      \<and> map fst out = [''v1'', ''v2''])"
  using send_update_msg_all_or_none [of "Some ''v2''" sample_env "sample_pane (Some \<lparr>fig_data = [], fig_layout = []\<rparr>)"
      "[]" "[(''title'', PStr ''t'')]" PNone "\<lparr>fig_data = [], fig_layout = []\<rparr>"]
    send_update_msg_all_or_none [of None sample_env "sample_pane (Some \<lparr>fig_data = [], fig_layout = []\<rparr>)"
      "[]" "[(''title'', PStr ''t'')]" PNone "\<lparr>fig_data = [], fig_layout = []\<rparr>"]
  by (auto simp: sample_pane_def)

section \<open>Shape of an update\<close>

lemma normalize_traces_length:
  "normalize_traces env traces = Inr traces' \<Longrightarrow> length traces' = length traces"
  by (induction traces arbitrary: traces') (auto split: sum.splits)

lemma plotly_json_wrapper_shape:
  "plotly_json_wrapper env fig = Inr json \<Longrightarrow>
   fig_layout json = fig_layout fig \<and> length (fig_data json) = length (fig_data fig)"
  by (auto simp: plotly_json_wrapper_def normalize_traces_length split: sum.splits)

lemma update_sources_loop_lengths:
  "update_sources_loop traces i sources new_sources us = Inr (traces', sources', new_sources', us') \<Longrightarrow>
   length traces' = length traces \<and> length sources' = length sources
   \<and> length new_sources' = length new_sources + ((i + length traces) - max i (length sources))"
proof (induction traces arbitrary: i sources new_sources us traces' sources' new_sources' us')
  case Nil
  then show ?case by auto
next
  case (Cons trace traces)
  from Cons.prems obtain u cds trace' ts where
    step: "update_data_sources (if i < length sources then sources ! i else []) trace = Inr (u, cds, trace')"
    and rest: "update_sources_loop traces (Suc i)
                  (if i < length sources then sources[i := cds] else sources)
                  (if i < length sources then new_sources else new_sources @ [cds])
                  (u \<or> us) = Inr (ts, sources', new_sources', us')"
    and tr: "traces' = trace' # ts"
    by (auto split: sum.splits prod.splits)
  from Cons.IH [OF rest] tr show ?case
    by (auto split: if_splits simp: max_def)
qed

lemma plotly_update_figure:
  assumes "object pane = Some fig" and "plotly_update env pane model = Inr model'"
  obtains json u sources update_sources where
    "plotly_json_wrapper env fig = Inr json"
    "compute_updates pane model json = Inr (u, sources, update_sources)"
    "model' = (if \<not> no_updates u \<or> update_sources
               then (apply_updates u (model\<lparr>data_sources := sources\<rparr>))
                      \<lparr>render_count := render_count (apply_updates u (model\<lparr>data_sources := sources\<rparr>)) + 1\<rparr>
               else apply_updates u (model\<lparr>data_sources := sources\<rparr>))"
  using assms by (auto simp: plotly_update_def Let_def split: sum.splits prod.splits)

lemma compute_updates_parts:
  assumes "compute_updates pane model json = Inr (u, sources, update_sources)"
  obtains traces new_sources where
    "update_sources_loop (fig_data json) 0 (data_sources model) [] False
       = Inr (traces, sources, new_sources, update_sources)"
    "sizing_update pane model (fig_layout json) = Inr (upd_sizing_mode u)"
    "upd_data_sources u = (if new_sources \<noteq> [] then Some (sources @ new_sources) else None)"
    "upd_data u = (if (if length (data model) \<noteq> length traces then True
                       else data_changed traces (data model)) then Some traces else None)"
    "upd_layout u = (if differs (PyDict (layout model)) (PyDict (fig_layout json))
                     then Some (fig_layout json) else None)"
  using assms by (auto simp: compute_updates_def Let_def split: sum.splits prod.splits)

section \<open>Lengths of the trace list and of the buffer list\<close>

text \<open>
  C2, as stated, fails: a model rendered from a figure of two traces has two traces
  and two data sources; after an update whose figure has one trace it has one trace
  and still two data sources.
\<close>

theorem update_with_fewer_traces:
  "plotly_update sample_env (sample_pane (Some \<lparr>fig_data = [bar_trace, bar_trace], fig_layout = []\<rparr>)) empty_model
     = Inr \<lparr>data = [[(''type'', PStr ''bar'')], [(''type'', PStr ''bar'')]], layout = [],
            data_sources = [[(''y'', PyList [NdArray [2] [NInt 1, NInt 2]])],
                            [(''y'', PyList [NdArray [2] [NInt 1, NInt 2]])]],
            model_sizing_mode = None, render_count = 1\<rparr>
   \<and> plotly_update sample_env (sample_pane (Some \<lparr>fig_data = [bar_trace], fig_layout = []\<rparr>))
        \<lparr>data = [[(''type'', PStr ''bar'')], [(''type'', PStr ''bar'')]], layout = [],
         data_sources = [[(''y'', PyList [NdArray [2] [NInt 1, NInt 2]])],
                         [(''y'', PyList [NdArray [2] [NInt 1, NInt 2]])]],
         model_sizing_mode = None, render_count = 1\<rparr>
     = Inr \<lparr>data = [[(''type'', PStr ''bar'')]], layout = [],
            data_sources = [[(''y'', PyList [NdArray [2] [NInt 1, NInt 2]])],
                            [(''y'', PyList [NdArray [2] [NInt 1, NInt 2]])]],
            model_sizing_mode = None, render_count = 2\<rparr>"
  by (simp add: plotly_update_def sample_pane_def sample_env_def plotly_json_wrapper_def
      normalize_value_def compute_updates_def update_data_sources_def full_path_of_def
      array_changed_def differs_def without_uid_def sizing_update_def apply_updates_def
      no_updates_def empty_model_def Let_def np_ne_def bar_trace_def)

text \<open>
  C2, amended.  After every update that returns, the trace list of the model is at
  most as long as its list of data sources.  After an update from a figure, the trace
  list is as long as the figure's, and the list of data sources has the greater of its
  former length and the number of traces: data sources are added and never removed,
  so the two lengths are equal exactly when the model had no more data sources than
  the figure has traces.
\<close>

theorem update_lengths:
  assumes "plotly_update env pane model = Inr model'"
  shows "length (data model') \<le> length (data_sources model')
         \<and> (\<forall>fig. object pane = Some fig \<longrightarrow>
              length (data model') = length (fig_data fig)
              \<and> length (data_sources model') = max (length (data_sources model)) (length (fig_data fig)))"
proof (cases "object pane")
  case None
  with assms show ?thesis by (auto simp: plotly_update_def)
next
  case (Some fig)
  from Some assms obtain json u sources update_sources where
    w: "plotly_json_wrapper env fig = Inr json"
    and c: "compute_updates pane model json = Inr (u, sources, update_sources)"
    and m: "model' = (if \<not> no_updates u \<or> update_sources
               then (apply_updates u (model\<lparr>data_sources := sources\<rparr>))
                      \<lparr>render_count := render_count (apply_updates u (model\<lparr>data_sources := sources\<rparr>)) + 1\<rparr>
               else apply_updates u (model\<lparr>data_sources := sources\<rparr>))"
    by (rule plotly_update_figure)
  from c obtain traces new_sources where
    l: "update_sources_loop (fig_data json) 0 (data_sources model) [] False
       = Inr (traces, sources, new_sources, update_sources)"
    and ds: "upd_data_sources u = (if new_sources \<noteq> [] then Some (sources @ new_sources) else None)"
    and d: "upd_data u = (if (if length (data model) \<noteq> length traces then True
                       else data_changed traces (data model)) then Some traces else None)"
    by (rule compute_updates_parts)
  from update_sources_loop_lengths [OF l] plotly_json_wrapper_shape [OF w]
  have len: "length traces = length (fig_data fig)" "length sources = length (data_sources model)"
    "length new_sources = length (fig_data fig) - length (data_sources model)"
    by auto
  have d': "length (data model') = length (fig_data fig)"
    using m d len by (auto simp: apply_updates_def split: if_splits)
  have s': "length (data_sources model') = max (length (data_sources model)) (length (fig_data fig))"
    using m ds len by (auto simp: apply_updates_def split: if_splits)
  from d' s' Some show ?thesis by auto
qed

theorem update_lengths_witness:
  "plotly_update sample_env (sample_pane (Some \<lparr>fig_data = [bar_trace, bar_trace], fig_layout = []\<rparr>)) empty_model
     = Inr \<lparr>data = [[(''type'', PStr ''bar'')], [(''type'', PStr ''bar'')]], layout = [],
            data_sources = [[(''y'', PyList [NdArray [2] [NInt 1, NInt 2]])],
                            [(''y'', PyList [NdArray [2] [NInt 1, NInt 2]])]],
            model_sizing_mode = None, render_count = 1\<rparr>
   \<and> length (data \<lparr>data = [[(''type'', PStr ''bar'')], [(''type'', PStr ''bar'')]], layout = [],
            data_sources = [[(''y'', PyList [NdArray [2] [NInt 1, NInt 2]])],
                            [(''y'', PyList [NdArray [2] [NInt 1, NInt 2]])]],
            model_sizing_mode = None, render_count = 1\<rparr>) = 2
   \<and> length (data_sources \<lparr>data = [[(''type'', PStr ''bar'')], [(''type'', PStr ''bar'')]], layout = [],
            data_sources = [[(''y'', PyList [NdArray [2] [NInt 1, NInt 2]])],
                            [(''y'', PyList [NdArray [2] [NInt 1, NInt 2]])]],
            model_sizing_mode = None, render_count = 1\<rparr>) = 2"
proof -
  have h: "plotly_update sample_env (sample_pane (Some \<lparr>fig_data = [bar_trace, bar_trace], fig_layout = []\<rparr>)) empty_model
     = Inr \<lparr>data = [[(''type'', PStr ''bar'')], [(''type'', PStr ''bar'')]], layout = [],
            data_sources = [[(''y'', PyList [NdArray [2] [NInt 1, NInt 2]])],
                            [(''y'', PyList [NdArray [2] [NInt 1, NInt 2]])]],
            model_sizing_mode = None, render_count = 1\<rparr>"
    by (simp add: plotly_update_def sample_pane_def sample_env_def plotly_json_wrapper_def
      normalize_value_def compute_updates_def update_data_sources_def full_path_of_def
      array_changed_def differs_def without_uid_def sizing_update_def apply_updates_def
      no_updates_def empty_model_def Let_def np_ne_def bar_trace_def)
  from update_lengths [OF h] h show ?thesis by simp
qed

section \<open>Sizing mode\<close>

text \<open>
  C7, as stated, fails on the initial render: with the pane's sizing mode at its
  default and a layout whose autosize flag is false, \<^verbatim>\<open>_init_params\<close> does not set
  the sizing mode to \<^verbatim>\<open>fixed\<close>; it stays the pane's own (here None).
\<close>

theorem init_params_autosize_false:
  "init_params sample_env (sample_pane (Some \<lparr>fig_data = [], fig_layout = [(''autosize'', PBool False)]\<rparr>))
     = Inr \<lparr>data = [], layout = [(''autosize'', PBool False)], data_sources = [],
            model_sizing_mode = None, render_count = 0\<rparr>
   \<and> sizing_mode (sample_pane (Some \<lparr>fig_data = [], fig_layout = [(''autosize'', PBool False)]\<rparr>))
     = sizing_mode_default (sample_pane (Some \<lparr>fig_data = [], fig_layout = [(''autosize'', PBool False)]\<rparr>))"
  by (simp add: plotly_update_def sample_pane_def sample_env_def plotly_json_wrapper_def
      normalize_value_def compute_updates_def update_data_sources_def full_path_of_def
      array_changed_def differs_def without_uid_def sizing_update_def apply_updates_def
      no_updates_def empty_model_def Let_def np_ne_def init_params_def)

text \<open>
  C7, amended.  On an update from a figure that returns: if the pane's sizing mode is
  the default and the layout has the key \<^verbatim>\<open>autosize\<close>, a true flag makes the model's
  sizing mode \<^verbatim>\<open>stretch_both\<close> and a false flag makes it \<^verbatim>\<open>fixed\<close>; without the key,
  or when the pane's sizing mode is not the default, the model's sizing mode is left
  as it was.  On the initial render, the sizing mode is \<^verbatim>\<open>stretch_both\<close> when the
  pane's sizing mode is the default and the autosize flag is true, and the pane's own
  sizing mode otherwise.
\<close>

theorem sizing_mode_after_render:
  "(object pane = Some fig \<and> plotly_update env pane model = Inr model' \<longrightarrow>
      (sizing_mode pane = sizing_mode_default pane \<longrightarrow>
         (\<forall>a. map_of (fig_layout fig) ''autosize'' = Some a \<longrightarrow>
              (truthy a = Inr True \<longrightarrow> model_sizing_mode model' = Some ''stretch_both'')
            \<and> (truthy a = Inr False \<longrightarrow> model_sizing_mode model' = Some ''fixed''))
         \<and> (map_of (fig_layout fig) ''autosize'' = None \<longrightarrow>
              model_sizing_mode model' = model_sizing_mode model))
    \<and> (sizing_mode pane \<noteq> sizing_mode_default pane \<longrightarrow>
         model_sizing_mode model' = model_sizing_mode model))
  \<and> (init_params env pane = Inr model0 \<longrightarrow>
       model_sizing_mode model0 =
         (if sizing_mode pane = sizing_mode_default pane
             \<and> (\<exists>fig a. object pane = Some fig \<and> map_of (fig_layout fig) ''autosize'' = Some a
                         \<and> truthy a = Inr True)
          then Some ''stretch_both'' else sizing_mode pane))"
proof (intro conjI impI)
  assume a: "object pane = Some fig \<and> plotly_update env pane model = Inr model'"
  then obtain json u sources update_sources where
    w: "plotly_json_wrapper env fig = Inr json"
    and c: "compute_updates pane model json = Inr (u, sources, update_sources)"
    and m: "model' = (if \<not> no_updates u \<or> update_sources
               then (apply_updates u (model\<lparr>data_sources := sources\<rparr>))
                      \<lparr>render_count := render_count (apply_updates u (model\<lparr>data_sources := sources\<rparr>)) + 1\<rparr>
               else apply_updates u (model\<lparr>data_sources := sources\<rparr>))"
    by (auto elim: plotly_update_figure)
  from c have s: "sizing_update pane model (fig_layout fig) = Inr (upd_sizing_mode u)"
    using plotly_json_wrapper_shape [OF w] by (auto elim: compute_updates_parts)
  have sm: "model_sizing_mode model' =
      (case upd_sizing_mode u of None \<Rightarrow> model_sizing_mode model | Some x \<Rightarrow> Some x)"
    using m by (auto simp: apply_updates_def split: option.splits)
  show "sizing_mode pane = sizing_mode_default pane \<Longrightarrow>
         (\<forall>a. map_of (fig_layout fig) ''autosize'' = Some a \<longrightarrow>
              (truthy a = Inr True \<longrightarrow> model_sizing_mode model' = Some ''stretch_both'')
            \<and> (truthy a = Inr False \<longrightarrow> model_sizing_mode model' = Some ''fixed''))"
    using s sm by (cases "upd_sizing_mode u") (auto simp: sizing_update_def split: if_splits)
  show "sizing_mode pane = sizing_mode_default pane \<Longrightarrow> map_of (fig_layout fig) ''autosize'' = None \<Longrightarrow>
              model_sizing_mode model' = model_sizing_mode model"
    using s sm by (cases "upd_sizing_mode u") (auto simp: sizing_update_def split: if_splits)
  show "sizing_mode pane \<noteq> sizing_mode_default pane \<Longrightarrow>
         model_sizing_mode model' = model_sizing_mode model"
    using s sm by (cases "upd_sizing_mode u") (auto simp: sizing_update_def split: if_splits)
next
  assume i: "init_params env pane = Inr model0"
  show "model_sizing_mode model0 =
         (if sizing_mode pane = sizing_mode_default pane
             \<and> (\<exists>fig a. object pane = Some fig \<and> map_of (fig_layout fig) ''autosize'' = Some a
                         \<and> truthy a = Inr True)
          then Some ''stretch_both'' else sizing_mode pane)"
  proof (cases "object pane")
    case None
    with i show ?thesis by (auto simp: init_params_def)
  next
    case (Some fig)
    with i show ?thesis
      by (auto simp: init_params_def plotly_json_wrapper_def split: sum.splits prod.splits option.splits)
  qed
qed

theorem sizing_mode_after_render_witness:
  "plotly_update sample_env (sample_pane (Some \<lparr>fig_data = [], fig_layout = [(''autosize'', PBool True)]\<rparr>)) empty_model
     = Inr \<lparr>data = [], layout = [(''autosize'', PBool True)], data_sources = [],
            model_sizing_mode = Some ''stretch_both'', render_count = 1\<rparr>
   \<and> plotly_update sample_env (sample_pane (Some \<lparr>fig_data = [], fig_layout = [(''autosize'', PBool False)]\<rparr>)) empty_model
     = Inr \<lparr>data = [], layout = [(''autosize'', PBool False)], data_sources = [],
            model_sizing_mode = Some ''fixed'', render_count = 1\<rparr>
   \<and> plotly_update sample_env
        (sample_pane (Some \<lparr>fig_data = [], fig_layout = [(''autosize'', PBool True)]\<rparr>)\<lparr>sizing_mode := Some ''scale_width''\<rparr>)
        empty_model
     = Inr \<lparr>data = [], layout = [(''autosize'', PBool True)], data_sources = [],
            model_sizing_mode = None, render_count = 1\<rparr>
   \<and> init_params sample_env (sample_pane (Some \<lparr>fig_data = [], fig_layout = [(''autosize'', PBool True)]\<rparr>))
     = Inr \<lparr>data = [], layout = [(''autosize'', PBool True)], data_sources = [],
            model_sizing_mode = Some ''stretch_both'', render_count = 0\<rparr>"
  using sizing_mode_after_render [of "sample_pane (Some \<lparr>fig_data = [], fig_layout = [(''autosize'', PBool True)]\<rparr>)"
      "\<lparr>fig_data = [], fig_layout = [(''autosize'', PBool True)]\<rparr>" sample_env empty_model
      "\<lparr>data = [], layout = [(''autosize'', PBool True)], data_sources = [],
            model_sizing_mode = Some ''stretch_both'', render_count = 1\<rparr>"
      "\<lparr>data = [], layout = [(''autosize'', PBool True)], data_sources = [],
            model_sizing_mode = Some ''stretch_both'', render_count = 0\<rparr>"]
  by (simp add: plotly_update_def sample_pane_def sample_env_def plotly_json_wrapper_def
      normalize_value_def compute_updates_def update_data_sources_def full_path_of_def
      array_changed_def differs_def without_uid_def sizing_update_def apply_updates_def
      no_updates_def empty_model_def Let_def np_ne_def init_params_def)

section \<open>Tab-visibility patch: the parent Tabs and the early return\<close>

text \<open>
  The Tabs that the hook picks for a plot widget holds the widget and holds no other
  Tabs that holds the widget: it is the innermost one.
\<close>

lemma find_Some_sat: "find P xs = Some x \<Longrightarrow> P x \<and> x \<in> set xs"
  by (induction xs) (auto split: if_splits)

lemma parent_tab_innermost:
  assumes "parent_tab_of (parent_tabs_of tabs_models model) = Some t"
  shows "t \<in> set tabs_models \<and> select_one_id t model
         \<and> (\<forall>pt \<in> set tabs_models. select_one_id pt model \<and> wid pt \<noteq> wid t
               \<longrightarrow> \<not> select_one_id t (wid pt))"
proof -
  let ?pts = "parent_tabs_of tabs_models model"
  from assms have "t \<in> set ?pts"
    and inner: "\<not> list_ex (\<lambda>pt. select_one_id t (wid pt)) (filter (\<lambda>pt. wid pt \<noteq> wid t) ?pts)"
    by (auto simp: parent_tab_of_def dest: find_Some_sat)
  then show ?thesis
    by (auto simp: parent_tabs_of_def list_ex_iff)
qed

text \<open>
  C8.  The hook is meant to bind every plot widget inside a Tabs, and to pass over a
  plot widget that is in no Tabs.  The code leaves the hook at the first plot widget
  without a parent Tabs: in a column of a bare plot widget (id 1) followed by a Tabs
  (id 2) with a plot widget (id 3), nothing is bound, although the same two children
  in the other order get the callback for widget 3 installed on the Tabs.
\<close>

theorem patch_stops_at_plot_without_tabs:
  "patch_tabs_plotly (BoxW 0 [PlotlyPlotW 1, TabsW 2 0 [PlotlyPlotW 3]]) no_callbacks = Inr no_callbacks
   \<and> (case patch_tabs_plotly (BoxW 0 [TabsW 2 0 [PlotlyPlotW 3], PlotlyPlotW 1]) no_callbacks of
        Inl e \<Rightarrow> False
      | Inr st \<Rightarrow> callbacks st 2 = [\<lparr>cb_code = code, cb_model = 3, cb_i = 0\<rparr>])"
  by (simp add: patch_tabs_plotly_def parent_tabs_of_def parent_tab_of_def select_one_id_def
      tab_index_def no_callbacks_def)

section \<open>Datetime normalisation covers the top level of a trace\<close>

lemma normalize_value_result:
  "normalize_value env v = Inr v' \<Longrightarrow> (if isdatetime env v then string_typed v' else v' = v)"
  by (cases v) (auto simp: normalize_value_def list_all_iff split: if_splits)

lemma normalize_trace_result:
  "normalize_trace env t = Inr t' \<Longrightarrow>
   list_all2 (\<lambda>(k, v) (k', v'). k' = k \<and> (if isdatetime env v then string_typed v' else v' = v)) t t'"
proof (induction t arbitrary: t')
  case Nil
  then show ?case by simp
next
  case (Cons kv t)
  obtain k v where kv: "kv = (k, v)" by (cases kv)
  from Cons.prems kv obtain v' r where
    "normalize_value env v = Inr v'" "normalize_trace env t = Inr r" "t' = (k, v') # r"
    by (auto split: sum.splits)
  with Cons.IH [of r] normalize_value_result [of env v v'] kv show ?case by simp
qed

lemma normalize_traces_result:
  "normalize_traces env ts = Inr ts' \<Longrightarrow>
   list_all2 (list_all2 (\<lambda>(k, v) (k', v'). k' = k \<and> (if isdatetime env v then string_typed v' else v' = v))) ts ts'"
proof (induction ts arbitrary: ts')
  case Nil
  then show ?case by simp
next
  case (Cons t ts)
  from Cons.prems obtain t' r where
    "normalize_trace env t = Inr t'" "normalize_traces env ts = Inr r" "ts' = t' # r"
    by (auto split: sum.splits)
  with Cons.IH [of r] normalize_trace_result [of env t t'] show ?case by simp
qed

text \<open>
  C4, as stated, fails: a list of datetimes under a key of a trace is converted, the
  same list one level down, under \<^verbatim>\<open>marker.color\<close>, comes back as datetimes.
\<close>

theorem nested_datetimes_stay:
  "plotly_json_wrapper sample_env
     \<lparr>fig_data = [[(''x'', PyList [PDate 1, PDate 2]),
                   (''marker'', PyDict [(''color'', PyList [PDate 1, PDate 2])])]],
      fig_layout = []\<rparr>
   = Inr \<lparr>fig_data = [[(''x'', PyList [PStr ''1'', PStr ''2'']),
                        (''marker'', PyDict [(''color'', PyList [PDate 1, PDate 2])])]],
          fig_layout = []\<rparr>
   \<and> isdatetime sample_env (PyList [PDate 1, PDate 2])
   \<and> \<not> string_typed (PyList [PDate 1, PDate 2])"
  by (simp add: plotly_json_wrapper_def normalize_value_def sample_env_def str_nat.simps digit_char_def)

text \<open>
  C4, amended.  When the pass returns, the layout is untouched, every trace keeps its
  keys in their order, every value stored directly under a key of a trace that
  \<^verbatim>\<open>isdatetime\<close> accepts, array or list, is string-typed, and every other value
  directly under a key is as it was, with whatever it holds at deeper levels.
\<close>

theorem datetime_normalization_top_level:
  assumes "plotly_json_wrapper env fig = Inr json"
  shows "fig_layout json = fig_layout fig
         \<and> list_all2 (list_all2 (\<lambda>(k, v) (k', v'). k' = k
               \<and> (if isdatetime env v then string_typed v' else v' = v)))
             (fig_data fig) (fig_data json)"
proof -
  from assms obtain data' where n: "normalize_traces env (fig_data fig) = Inr data'"
    and j: "json = fig\<lparr>fig_data := data'\<rparr>"
    by (auto simp: plotly_json_wrapper_def split: sum.splits)
  from normalize_traces_result [OF n] j show ?thesis by simp
qed

theorem datetime_normalization_top_level_witness:
  "plotly_json_wrapper sample_env
     \<lparr>fig_data = [[(''x'', NdArray [2] [NDate 1, NDate 2]), (''y'', PyList [PDate 3]), (''name'', PStr ''a'')]],
      fig_layout = []\<rparr>
   = Inr \<lparr>fig_data = [[(''x'', NdArray [2] [NStr ''1'', NStr ''2'']), (''y'', PyList [PStr ''3'']), (''name'', PStr ''a'')]],
          fig_layout = []\<rparr>
   \<and> string_typed (NdArray [2] [NStr ''1'', NStr ''2'']) \<and> string_typed (PyList [PStr ''3''])"
proof -
  have h: "plotly_json_wrapper sample_env
     \<lparr>fig_data = [[(''x'', NdArray [2] [NDate 1, NDate 2]), (''y'', PyList [PDate 3]), (''name'', PStr ''a'')]],
      fig_layout = []\<rparr>
   = Inr \<lparr>fig_data = [[(''x'', NdArray [2] [NStr ''1'', NStr ''2'']), (''y'', PyList [PStr ''3'']), (''name'', PStr ''a'')]],
          fig_layout = []\<rparr>"
    by (simp add: plotly_json_wrapper_def normalize_value_def sample_env_def str_nat.simps digit_char_def)
  from datetime_normalization_top_level [OF h] h show ?thesis
    by (simp add: sample_env_def)
qed

section \<open>Rendering the same figure twice\<close>

text \<open>A comparable value is equal to itself.\<close>

lemma list_eq_refl:
  "(\<And>x. x \<in> set xs \<Longrightarrow> py_eq x x = Some True) \<Longrightarrow> list_eq xs xs = Some True"
  by (induction xs) auto

lemma dict_eq_lookup:
  "\<forall>(k, v) \<in> set items. map_of d k = Some v \<and> py_eq v v = Some True \<Longrightarrow>
   dict_eq items d = Some True"
  by (induction items) auto

lemma py_eq_refl: "comparable v \<Longrightarrow> py_eq v v = Some True"
proof (induction v)
  case (PyList vs)
  then show ?case by (auto intro!: list_eq_refl simp: list_all_iff)
next
  case (PyDict d)
  have "dict_eq d d = Some True"
  proof (rule dict_eq_lookup, clarify)
    fix k v assume kv: "(k, v) \<in> set d"
    with PyDict.prems have "map_of d k = Some v" by simp
    moreover from kv PyDict.prems have "comparable v" by (auto simp: list_all_iff)
    with kv PyDict.IH [of "(k, v)" v] have "py_eq v v = Some True" by auto
    ultimately show "map_of d k = Some v \<and> py_eq v v = Some True" by simp
  qed
  then show ?case by simp
qed auto

lemma differs_refl: "comparable v \<Longrightarrow> \<not> differs v v"
  by (simp add: differs_def py_eq_refl)

lemma comparable_without_uid: "comparable (PyDict d) \<Longrightarrow> comparable (without_uid d)"
  by (auto simp: without_uid_def list_all_iff distinct_map_filter)

lemma data_changed_refl:
  "(\<And>t. t \<in> set ts \<Longrightarrow> comparable (PyDict t)) \<Longrightarrow> \<not> data_changed ts ts"
  by (induction ts) (auto simp: differs_refl comparable_without_uid)

lemma extract_distinct:
  "get_sources_for_trace json dat pp = Inr (json', dat1) \<Longrightarrow> distinct (map fst dat)
     \<Longrightarrow> distinct (map fst dat1)"
  "get_sources_for_elements es i dat fp = Inr (es', dat2) \<Longrightarrow> distinct (map fst dat)
     \<Longrightarrow> distinct (map fst dat2)"
proof (induction json dat pp and es i dat fp arbitrary: json' dat1 and es' dat2
    rule: get_sources_for_trace_get_sources_for_elements.induct)
  case (1 dat parent_path)
  then show ?case by simp
next
  case (2 key "value" items dat parent_path)
  then show ?case
    by (auto simp: Let_def distinct_update split: pyval.splits list.splits sum.splits prod.splits)
next
  case (3 i dat full_path)
  then show ?case by simp
next
  case (4 element elements i dat full_path)
  then show ?case
    by (auto split: pyval.splits sum.splits prod.splits)
qed

lemma update_columns_frame:
  "update_columns items cds us = Inr (u, cds1) \<Longrightarrow> key \<notin> fst ` set items \<Longrightarrow>
   map_of cds1 key = map_of cds key"
proof (induction items arbitrary: cds us)
  case Nil
  then show ?case by simp
next
  case (Cons kv items)
  obtain k col where kv: "kv = (k, col)" by (cases kv)
  with Cons.prems have ne: "k \<noteq> key" and rest: "key \<notin> fst ` set items" by auto
  from Cons.prems kv obtain new cds' us' where
    "update_columns items cds' us' = Inr (u, cds1)"
    "cds' = cds \<or> cds' = AList.update k (PyList [new]) cds"
    by (auto split: pyval.splits list.splits if_splits)
  with Cons.IH [OF _ rest] ne show ?case
    by (auto simp: update_conv')
qed

lemma array_unchanged_self:
  "stable_column (PyList [new]) \<Longrightarrow> \<not> array_changed (Some (PyList [new])) new"
  by (cases new) (auto simp: array_changed_def zip_same_conv_map list_ex_iff np_ne_def)

lemma update_columns_settles:
  "update_columns items cds us = Inr (u, cds1) \<Longrightarrow> distinct (map fst items) \<Longrightarrow>
   list_all (\<lambda>kv. stable_column (snd kv)) items \<Longrightarrow>
   \<forall>(key, col) \<in> set items. \<exists>new. col = PyList [new] \<and> \<not> array_changed (map_of cds1 key) new"
proof (induction items arbitrary: cds us)
  case Nil
  then show ?case by simp
next
  case (Cons kv items)
  obtain k col where kv: "kv = (k, col)" by (cases kv)
  from Cons.prems kv have st: "stable_column col" by simp
  then obtain new where col: "col = PyList [new]"
    by (cases col rule: stable_column.cases) auto
  from Cons.prems kv have fresh: "k \<notin> fst ` set items" and d: "distinct (map fst items)"
    and sts: "list_all (\<lambda>kv. stable_column (snd kv)) items" by auto
  define cds' where "cds' = (if array_changed (map_of cds k) new
                              then AList.update k (PyList [new]) cds else cds)"
  define us' where "us' = (if array_changed (map_of cds k) new then True else us)"
  from Cons.prems(1) kv col have rest: "update_columns items cds' us' = Inr (u, cds1)"
    by (auto simp: cds'_def us'_def split: if_splits)
  have "\<not> array_changed (map_of cds' k) new"
    using st col array_unchanged_self [of new] by (auto simp: cds'_def update_conv')
  with update_columns_frame [OF rest fresh]
  have "\<not> array_changed (map_of cds1 k) new" by simp
  with Cons.IH [OF rest d sts] kv col show ?case by auto
qed

lemma update_columns_settled:
  "\<forall>(key, col) \<in> set items. \<exists>new. col = PyList [new] \<and> \<not> array_changed (map_of cds key) new \<Longrightarrow>
   update_columns items cds us = Inr (us, cds)"
  by (induction items) auto

lemma update_data_sources_settles:
  assumes "update_data_sources cds trace = Inr (u, cds', trace')" and "stable_trace trace"
  shows "update_data_sources cds' trace = Inr (False, cds', trace')"
proof -
  from assms(1) obtain arrays where
    e: "get_sources_for_trace trace [] [] = Inr (trace', arrays)"
    and c: "update_columns arrays cds False = Inr (u, cds')"
    by (auto simp: update_data_sources_def split: sum.splits prod.splits)
  from e have d: "distinct (map fst arrays)" by (rule extract_distinct) simp
  from assms(2) e have s: "list_all (\<lambda>kv. stable_column (snd kv)) arrays"
    by (simp add: stable_trace_def)
  from update_columns_settled [OF update_columns_settles [OF c d s]] e
  show ?thesis by (simp add: update_data_sources_def)
qed

text \<open>The first pass over the data sources settles them; a second pass changes nothing.\<close>

lemma update_sources_loop_step:
  assumes "update_sources_loop (trace # traces) i S N us = Inr (ts', S1, N1, us1)"
  obtains u cds trace' ts where
    "update_data_sources (if i < length S then S ! i else []) trace = Inr (u, cds, trace')"
    "update_sources_loop traces (Suc i)
        (if i < length S then S[i := cds] else S)
        (if i < length S then N else N @ [cds]) (u \<or> us) = Inr (ts, S1, N1, us1)"
    "ts' = trace' # ts"
  using assms by (auto split: sum.splits prod.splits)

lemma loop_pre_step:
  "loop_pre i S N \<Longrightarrow>
   loop_pre (Suc i) (if i < length S then S[i := cds] else S) (if i < length S then N else N @ [cds])
   \<and> ((if i < length S then S[i := cds] else S) @ (if i < length S then N else N @ [cds])) ! i = cds
   \<and> (\<forall>p<i. ((if i < length S then S[i := cds] else S) @ (if i < length S then N else N @ [cds])) ! p
              = (S @ N) ! p)"
  by (auto simp: loop_pre_def nth_append nth_list_update)

lemma update_sources_loop_frame:
  "update_sources_loop traces i S N us = Inr (ts', S1, N1, us1) \<Longrightarrow> loop_pre i S N \<Longrightarrow>
   \<forall>p<i. (S1 @ N1) ! p = (S @ N) ! p"
proof (induction traces arbitrary: i S N us ts')
  case Nil
  then show ?case by simp
next
  case (Cons trace traces)
  from Cons.prems(1) obtain u cds trace' ts where
    rest: "update_sources_loop traces (Suc i)
        (if i < length S then S[i := cds] else S)
        (if i < length S then N else N @ [cds]) (u \<or> us) = Inr (ts, S1, N1, us1)"
    by (rule update_sources_loop_step)
  from loop_pre_step [OF Cons.prems(2), of cds]
  have pre: "loop_pre (Suc i) (if i < length S then S[i := cds] else S) (if i < length S then N else N @ [cds])"
    and same: "\<forall>p<i. ((if i < length S then S[i := cds] else S) @ (if i < length S then N else N @ [cds])) ! p
              = (S @ N) ! p"
    by blast+
  from Cons.IH [OF rest pre] same show ?case by (metis less_Suc_eq)
qed

lemma update_sources_loop_settles:
  "update_sources_loop traces i S N us = Inr (ts', S1, N1, us1) \<Longrightarrow> loop_pre i S N \<Longrightarrow>
   \<forall>t \<in> set traces. stable_trace t \<Longrightarrow>
   \<forall>k < length traces.
     update_data_sources ((S1 @ N1) ! (i + k)) (traces ! k) = Inr (False, (S1 @ N1) ! (i + k), ts' ! k)"
proof (induction traces arbitrary: i S N us ts')
  case Nil
  then show ?case by simp
next
  case (Cons trace traces)
  from Cons.prems(1) obtain u cds trace' ts where
    step: "update_data_sources (if i < length S then S ! i else []) trace = Inr (u, cds, trace')"
    and rest: "update_sources_loop traces (Suc i)
        (if i < length S then S[i := cds] else S)
        (if i < length S then N else N @ [cds]) (u \<or> us) = Inr (ts, S1, N1, us1)"
    and ts': "ts' = trace' # ts"
    by (rule update_sources_loop_step)
  from loop_pre_step [OF Cons.prems(2), of cds]
  have pre: "loop_pre (Suc i) (if i < length S then S[i := cds] else S) (if i < length S then N else N @ [cds])"
    and at: "((if i < length S then S[i := cds] else S) @ (if i < length S then N else N @ [cds])) ! i = cds"
    by blast+
  from update_sources_loop_frame [OF rest pre] at have here: "(S1 @ N1) ! i = cds" by simp
  from Cons.prems(3) have st: "stable_trace trace" and sts: "\<forall>t \<in> set traces. stable_trace t" by auto
  from update_data_sources_settles [OF step st] here
  have zero: "update_data_sources ((S1 @ N1) ! i) trace = Inr (False, (S1 @ N1) ! i, trace')" by simp
  from Cons.IH [OF rest pre sts]
  have more: "\<forall>k < length traces.
     update_data_sources ((S1 @ N1) ! (Suc i + k)) (traces ! k) = Inr (False, (S1 @ N1) ! (Suc i + k), ts ! k)" .
  show ?case
  proof (intro allI impI)
    fix k assume "k < length (trace # traces)"
    then show "update_data_sources ((S1 @ N1) ! (i + k)) ((trace # traces) ! k)
               = Inr (False, (S1 @ N1) ! (i + k), ts' ! k)"
      using zero more ts' by (cases k) auto
  qed
qed

lemma update_sources_loop_settled:
  "\<forall>k < length traces. i + k < length F
      \<and> update_data_sources (F ! (i + k)) (traces ! k) = Inr (False, F ! (i + k), ts' ! k) \<Longrightarrow>
   length ts' = length traces \<Longrightarrow>
   update_sources_loop traces i F ns us = Inr (ts', F, ns, us)"
proof (induction traces arbitrary: i ts')
  case Nil
  then show ?case by simp
next
  case (Cons trace traces)
  from Cons.prems(2) obtain t' ts where ts': "ts' = t' # ts" and len: "length ts = length traces"
    by (cases ts') auto
  from Cons.prems(1) [rule_format, of 0] ts'
  have i: "i < length F" and zero: "update_data_sources (F ! i) trace = Inr (False, F ! i, t')"
    by auto
  have "\<forall>k < length traces. Suc i + k < length F
      \<and> update_data_sources (F ! (Suc i + k)) (traces ! k) = Inr (False, F ! (Suc i + k), ts ! k)"
  proof (intro allI impI)
    fix k assume "k < length traces"
    with Cons.prems(1) [rule_format, of "Suc k"] ts'
    show "Suc i + k < length F
      \<and> update_data_sources (F ! (Suc i + k)) (traces ! k) = Inr (False, F ! (Suc i + k), ts ! k)"
      by simp
  qed
  from Cons.IH [OF this len] i zero ts' show ?case by simp
qed

lemma sizing_update_settles:
  "sizing_update pane m l = Inr sm \<Longrightarrow>
   model_sizing_mode m' = (case sm of None \<Rightarrow> model_sizing_mode m | Some x \<Rightarrow> Some x) \<Longrightarrow>
   sizing_update pane m' l = Inr None"
  by (auto simp: sizing_update_def split: if_splits option.splits sum.splits)

lemma stable_trace_stripped:
  "stable_trace trace \<Longrightarrow> update_data_sources cds trace = Inr (u, cds', trace') \<Longrightarrow>
   comparable (PyDict trace')"
  by (auto simp: stable_trace_def update_data_sources_def split: sum.splits prod.splits)

text \<open>
  After an update from a stable figure, a second update from the same figure has an
  empty update set, changes no data source and returns the model as it is.
\<close>

lemma rerender_after_update:
  assumes first: "plotly_update env pane model0 = Inr model1"
    and obj: "object pane = Some fig"
    and w: "plotly_json_wrapper env fig = Inr json"
    and st: "stable_figure json"
  shows "compute_updates pane model1 json
           = Inr (\<lparr>upd_sizing_mode = None, upd_data_sources = None, upd_data = None, upd_layout = None\<rparr>,
                  data_sources model1, False)
         \<and> plotly_update env pane model1 = Inr model1"
proof -
  from obj first obtain json0 u S1 us1 where
    w0: "plotly_json_wrapper env fig = Inr json0"
    and c: "compute_updates pane model0 json0 = Inr (u, S1, us1)"
    and m: "model1 = (if \<not> no_updates u \<or> us1
               then (apply_updates u (model0\<lparr>data_sources := S1\<rparr>))
                      \<lparr>render_count := render_count (apply_updates u (model0\<lparr>data_sources := S1\<rparr>)) + 1\<rparr>
               else apply_updates u (model0\<lparr>data_sources := S1\<rparr>))"
    by (rule plotly_update_figure)
  from w w0 have [simp]: "json0 = json" by simp
  from c obtain ts N1 where
    l: "update_sources_loop (fig_data json) 0 (data_sources model0) [] False = Inr (ts, S1, N1, us1)"
    and s: "sizing_update pane model0 (fig_layout json) = Inr (upd_sizing_mode u)"
    and uds: "upd_data_sources u = (if N1 \<noteq> [] then Some (S1 @ N1) else None)"
    and ud: "upd_data u = (if (if length (data model0) \<noteq> length ts then True
                       else data_changed ts (data model0)) then Some ts else None)"
    and ul: "upd_layout u = (if differs (PyDict (layout model0)) (PyDict (fig_layout json))
                     then Some (fig_layout json) else None)"
    by (rule compute_updates_parts) simp
  let ?F = "S1 @ N1"
  have ds1: "data_sources model1 = ?F"
    using m uds by (auto simp: apply_updates_def split: option.splits)
  have d1: "data model1 = (case upd_data u of None \<Rightarrow> data model0 | Some d \<Rightarrow> d)"
    using m by (auto simp: apply_updates_def split: option.splits)
  have l1: "layout model1 = (case upd_layout u of None \<Rightarrow> layout model0 | Some d \<Rightarrow> d)"
    using m by (auto simp: apply_updates_def split: option.splits)
  have sm1: "model_sizing_mode model1
               = (case upd_sizing_mode u of None \<Rightarrow> model_sizing_mode model0 | Some x \<Rightarrow> Some x)"
    using m by (auto simp: apply_updates_def split: option.splits)
  from st have sts: "\<forall>t \<in> set (fig_data json). stable_trace t"
    and cl: "comparable (PyDict (fig_layout json))"
    by (auto simp: stable_figure_def list_all_iff)
  have pre: "loop_pre 0 (data_sources model0) []" by (simp add: loop_pre_def)
  from update_sources_loop_lengths [OF l]
  have len: "length ts = length (fig_data json)" "length S1 = length (data_sources model0)"
    "length N1 = length (fig_data json) - length (data_sources model0)" by auto
  from update_sources_loop_settles [OF l pre sts]
  have settled: "\<forall>k < length (fig_data json).
     update_data_sources (?F ! k) (fig_data json ! k) = Inr (False, ?F ! k, ts ! k)" by simp
  have "\<forall>k < length (fig_data json). 0 + k < length ?F
      \<and> update_data_sources (?F ! (0 + k)) (fig_data json ! k) = Inr (False, ?F ! (0 + k), ts ! k)"
    using settled len by auto
  from update_sources_loop_settled [OF this len(1)]
  have l2: "update_sources_loop (fig_data json) 0 ?F [] False = Inr (ts, ?F, [], False)" .
  have cts: "\<And>t. t \<in> set ts \<Longrightarrow> comparable (PyDict t)"
  proof -
    fix t assume "t \<in> set ts"
    then obtain k where k: "k < length ts" "t = ts ! k" by (auto simp: in_set_conv_nth)
    with len settled sts have "stable_trace (fig_data json ! k)"
      and "update_data_sources (?F ! k) (fig_data json ! k) = Inr (False, ?F ! k, ts ! k)"
      by auto
    with k show "comparable (PyDict t)" by (auto dest: stable_trace_stripped)
  qed
  have dlen: "length (data model1) = length ts"
    using d1 ud by (auto split: if_splits)
  have dch: "\<not> data_changed ts (data model1)"
    using d1 ud data_changed_refl [of ts, OF cts] by (auto split: if_splits)
  have lch: "\<not> differs (PyDict (layout model1)) (PyDict (fig_layout json))"
    using l1 ul differs_refl [OF cl] by (auto split: if_splits)
  from sizing_update_settles [OF s sm1]
  have s2: "sizing_update pane model1 (fig_layout json) = Inr None" .
  have c2: "compute_updates pane model1 json
           = Inr (\<lparr>upd_sizing_mode = None, upd_data_sources = None, upd_data = None, upd_layout = None\<rparr>,
                  data_sources model1, False)"
    using l2 dlen dch lch s2 ds1 by (simp add: compute_updates_def)
  have "plotly_update env pane model1 = Inr model1"
    using obj w c2 by (simp add: plotly_update_def no_updates_def apply_updates_def)
  with c2 show ?thesis by simp
qed

text \<open>
  After the initial render of a stable figure, each data source is the buffer extracted
  from its trace, so the update that follows finds nothing to change in the data, the
  layout and the data sources; it sets the sizing mode to \<^verbatim>\<open>fixed\<close> exactly when
  \<open>fixed_after_init\<close> says so.
\<close>

lemma get_sources_parts:
  "get_sources traces = Inr (stripped, sources) \<Longrightarrow>
   length stripped = length traces \<and> length sources = length traces
   \<and> (\<forall>k < length traces.
         get_sources_for_trace (traces ! k) [] [] = Inr (stripped ! k, sources ! k))"
proof (induction traces arbitrary: stripped sources)
  case Nil
  then show ?case by simp
next
  case (Cons trace traces)
  from Cons.prems obtain t' arrays ts srcs where
    e: "get_sources_for_trace trace [] [] = Inr (t', arrays)"
    and r: "get_sources traces = Inr (ts, srcs)"
    and s: "stripped = t' # ts" "sources = arrays # srcs"
    by (auto split: sum.splits prod.splits)
  from Cons.IH [OF r] have len: "length ts = length traces" "length srcs = length traces"
    and ks: "\<forall>k < length traces. get_sources_for_trace (traces ! k) [] [] = Inr (ts ! k, srcs ! k)"
    by auto
  show ?case
  proof (intro conjI allI impI)
    fix k assume "k < length (trace # traces)"
    then show "get_sources_for_trace ((trace # traces) ! k) [] [] = Inr (stripped ! k, sources ! k)"
      using e ks s by (cases k) auto
  qed (use len s in auto)
qed

lemma update_data_sources_own_buffer:
  assumes "stable_trace trace" and e: "get_sources_for_trace trace [] [] = Inr (t', arrays)"
  shows "update_data_sources arrays trace = Inr (False, arrays, t')"
proof -
  from e have d: "distinct (map fst arrays)" by (rule extract_distinct) simp
  from assms have s: "list_all (\<lambda>kv. stable_column (snd kv)) arrays"
    by (simp add: stable_trace_def)
  have "\<forall>(key, col) \<in> set arrays. \<exists>new. col = PyList [new] \<and> \<not> array_changed (map_of arrays key) new"
  proof (clarify)
    fix key col assume m: "(key, col) \<in> set arrays"
    with s have st: "stable_column col" by (auto simp: list_all_iff)
    then obtain new where col: "col = PyList [new]"
      by (cases col rule: stable_column.cases) auto
    from d m have "map_of arrays key = Some col" by simp
    with st col array_unchanged_self [of new]
    show "\<exists>new. col = PyList [new] \<and> \<not> array_changed (map_of arrays key) new" by simp
  qed
  from update_columns_settled [OF this] e show ?thesis
    by (simp add: update_data_sources_def)
qed

lemma rerender_after_init:
  assumes first: "init_params env pane = Inr model0"
    and obj: "object pane = Some fig"
    and w: "plotly_json_wrapper env fig = Inr json"
    and st: "stable_figure json"
  shows "compute_updates pane model0 json
           = Inr (\<lparr>upd_sizing_mode = fixed_after_init pane (fig_layout json),
                   upd_data_sources = None, upd_data = None, upd_layout = None\<rparr>,
                  data_sources model0, False)
         \<and> plotly_update env pane model0
           = Inr (if fixed_after_init pane (fig_layout json) = None then model0
                  else model0\<lparr>model_sizing_mode := Some ''fixed'',
                              render_count := render_count model0 + 1\<rparr>)"
proof -
  from first obj w obtain stripped sources autosize where
    g: "get_sources (fig_data json) = Inr (stripped, sources)"
    and t: "truthy (case map_of (fig_layout json) ''autosize'' of None \<Rightarrow> PNone | Some a \<Rightarrow> a) = Inr autosize"
    and m: "model0 = \<lparr>data = stripped, layout = fig_layout json, data_sources = sources,
                    model_sizing_mode =
                      (if autosize \<and> sizing_mode pane = sizing_mode_default pane
                       then Some ''stretch_both'' else sizing_mode pane),
                    render_count = pane_render_count pane\<rparr>"
    by (auto simp: init_params_def split: sum.splits prod.splits)
  from st have sts: "\<forall>t \<in> set (fig_data json). stable_trace t"
    and cl: "comparable (PyDict (fig_layout json))"
    by (auto simp: stable_figure_def list_all_iff)
  from get_sources_parts [OF g]
  have len: "length stripped = length (fig_data json)" "length sources = length (fig_data json)"
    and ks: "\<forall>k < length (fig_data json).
         get_sources_for_trace (fig_data json ! k) [] [] = Inr (stripped ! k, sources ! k)"
    by auto
  have own: "\<forall>k < length (fig_data json). 0 + k < length sources
      \<and> update_data_sources (sources ! (0 + k)) (fig_data json ! k)
          = Inr (False, sources ! (0 + k), stripped ! k)"
  proof (intro allI impI)
    fix k assume k: "k < length (fig_data json)"
    with sts have "stable_trace (fig_data json ! k)" by simp
    from update_data_sources_own_buffer [OF this ks [rule_format, OF k]] k len
    show "0 + k < length sources
      \<and> update_data_sources (sources ! (0 + k)) (fig_data json ! k)
          = Inr (False, sources ! (0 + k), stripped ! k)" by simp
  qed
  from update_sources_loop_settled [OF own len(1)]
  have l: "update_sources_loop (fig_data json) 0 sources [] False = Inr (stripped, sources, [], False)" .
  have cts: "\<And>t. t \<in> set stripped \<Longrightarrow> comparable (PyDict t)"
  proof -
    fix t assume "t \<in> set stripped"
    then obtain k where k: "k < length stripped" "t = stripped ! k" by (auto simp: in_set_conv_nth)
    with len sts ks have "stable_trace (fig_data json ! k)"
      and "get_sources_for_trace (fig_data json ! k) [] [] = Inr (stripped ! k, sources ! k)"
      by auto
    with k show "comparable (PyDict t)" by (simp add: stable_trace_def)
  qed
  have dch: "\<not> data_changed stripped stripped" by (rule data_changed_refl) (rule cts)
  have lch: "\<not> differs (PyDict (fig_layout json)) (PyDict (fig_layout json))"
    by (rule differs_refl) (rule cl)
  have s: "sizing_update pane model0 (fig_layout json) = Inr (fixed_after_init pane (fig_layout json))"
    using t m by (auto simp: sizing_update_def fixed_after_init_def split: option.splits)
  have c: "compute_updates pane model0 json
           = Inr (\<lparr>upd_sizing_mode = fixed_after_init pane (fig_layout json),
                   upd_data_sources = None, upd_data = None, upd_layout = None\<rparr>,
                  data_sources model0, False)"
    using l dch lch s m by (simp add: compute_updates_def)
  have "plotly_update env pane model0
           = Inr (if fixed_after_init pane (fig_layout json) = None then model0
                  else model0\<lparr>model_sizing_mode := Some ''fixed'',
                              render_count := render_count model0 + 1\<rparr>)"
    using obj w c m
    by (auto simp: plotly_update_def no_updates_def apply_updates_def fixed_after_init_def)
  with c show ?thesis by simp
qed

text \<open>
  C6, as stated, fails.  A figure whose layout holds an array (the tick values of an
  axis): the comparison of the layout with itself raises, which the code takes as
  changed, so the second update of the same figure sets the layout again and counts a
  render.  A figure with a NaN in an extracted array: the elementwise comparison of the
  array with itself has a true entry, so the second update counts a render.  A figure
  with a false autosize flag, on a pane whose sizing mode is the default: the initial
  render leaves the sizing mode alone, the update of the same figure that follows sets
  it to \<^verbatim>\<open>fixed\<close> and counts a render.
\<close>

theorem identical_figure_rerender_changes:
  "plotly_update sample_env
     (sample_pane (Some \<lparr>fig_data = [],
        fig_layout = [(''xaxis'', PyDict [(''tickvals'', NdArray [2] [NInt 0, NInt 1])])]\<rparr>))
     empty_model
   = Inr \<lparr>data = [], layout = [(''xaxis'', PyDict [(''tickvals'', NdArray [2] [NInt 0, NInt 1])])],
          data_sources = [], model_sizing_mode = None, render_count = 1\<rparr>
   \<and> compute_updates
     (sample_pane (Some \<lparr>fig_data = [],
        fig_layout = [(''xaxis'', PyDict [(''tickvals'', NdArray [2] [NInt 0, NInt 1])])]\<rparr>))
     \<lparr>data = [], layout = [(''xaxis'', PyDict [(''tickvals'', NdArray [2] [NInt 0, NInt 1])])],
      data_sources = [], model_sizing_mode = None, render_count = 1\<rparr>
     \<lparr>fig_data = [],
        fig_layout = [(''xaxis'', PyDict [(''tickvals'', NdArray [2] [NInt 0, NInt 1])])]\<rparr>
   = Inr (\<lparr>upd_sizing_mode = None, upd_data_sources = None, upd_data = None,
           upd_layout = Some [(''xaxis'', PyDict [(''tickvals'', NdArray [2] [NInt 0, NInt 1])])]\<rparr>,
          [], False)
   \<and> plotly_update sample_env
     (sample_pane (Some \<lparr>fig_data = [],
        fig_layout = [(''xaxis'', PyDict [(''tickvals'', NdArray [2] [NInt 0, NInt 1])])]\<rparr>))
     \<lparr>data = [], layout = [(''xaxis'', PyDict [(''tickvals'', NdArray [2] [NInt 0, NInt 1])])],
      data_sources = [], model_sizing_mode = None, render_count = 1\<rparr>
   = Inr \<lparr>data = [], layout = [(''xaxis'', PyDict [(''tickvals'', NdArray [2] [NInt 0, NInt 1])])],
          data_sources = [], model_sizing_mode = None, render_count = 2\<rparr>
   \<and> plotly_update sample_env
     (sample_pane (Some \<lparr>fig_data = [[(''y'', NdArray [2] [NInt 1, NNaN])]], fig_layout = []\<rparr>))
     empty_model
   = Inr \<lparr>data = [[]], layout = [], data_sources = [[(''y'', PyList [NdArray [2] [NInt 1, NNaN]])]],
          model_sizing_mode = None, render_count = 1\<rparr>
   \<and> plotly_update sample_env
     (sample_pane (Some \<lparr>fig_data = [[(''y'', NdArray [2] [NInt 1, NNaN])]], fig_layout = []\<rparr>))
     \<lparr>data = [[]], layout = [], data_sources = [[(''y'', PyList [NdArray [2] [NInt 1, NNaN]])]],
      model_sizing_mode = None, render_count = 1\<rparr>
   = Inr \<lparr>data = [[]], layout = [], data_sources = [[(''y'', PyList [NdArray [2] [NInt 1, NNaN]])]],
          model_sizing_mode = None, render_count = 2\<rparr>
   \<and> init_params sample_env
     (sample_pane (Some \<lparr>fig_data = [bar_trace], fig_layout = [(''autosize'', PBool False)]\<rparr>))
   = Inr \<lparr>data = [[(''type'', PStr ''bar'')]], layout = [(''autosize'', PBool False)],
          data_sources = [[(''y'', PyList [NdArray [2] [NInt 1, NInt 2]])]],
          model_sizing_mode = None, render_count = 0\<rparr>
   \<and> plotly_update sample_env
     (sample_pane (Some \<lparr>fig_data = [bar_trace], fig_layout = [(''autosize'', PBool False)]\<rparr>))
     \<lparr>data = [[(''type'', PStr ''bar'')]], layout = [(''autosize'', PBool False)],
      data_sources = [[(''y'', PyList [NdArray [2] [NInt 1, NInt 2]])]],
      model_sizing_mode = None, render_count = 0\<rparr>
   = Inr \<lparr>data = [[(''type'', PStr ''bar'')]], layout = [(''autosize'', PBool False)],
          data_sources = [[(''y'', PyList [NdArray [2] [NInt 1, NInt 2]])]],
          model_sizing_mode = Some ''fixed'', render_count = 1\<rparr>"
  by (simp add: plotly_update_def sample_pane_def sample_env_def plotly_json_wrapper_def
      normalize_value_def compute_updates_def update_data_sources_def full_path_of_def
      array_changed_def differs_def without_uid_def sizing_update_def apply_updates_def
      no_updates_def empty_model_def Let_def np_ne_def init_params_def bar_trace_def)

text \<open>
  C6, amended.  Let two successive renders be given the same figure, and let the
  figure be stable: its layout and its traces stripped of their arrays hold no numpy
  array (so that the comparisons do not raise), and no extracted array holds a NaN.
  Then the second render, an update, sets no data, no layout and no data sources and
  changes no data source.  When the first render was an update too, the second sets no
  sizing mode either and leaves the model, with its render count, exactly as it was.
  When the first render was the initial one, the same holds unless the pane's sizing
  mode is the default, is not \<^verbatim>\<open>fixed\<close>, and the layout has a false autosize flag:
  then the second render sets the sizing mode to \<^verbatim>\<open>fixed\<close> and adds one to the
  render count, and changes nothing else.
\<close>

theorem identical_figure_rerender:
  assumes obj: "object pane = Some fig"
    and w: "plotly_json_wrapper env fig = Inr json"
    and st: "stable_figure json"
  shows "(plotly_update env pane model0 = Inr model1 \<longrightarrow>
            compute_updates pane model1 json
              = Inr (\<lparr>upd_sizing_mode = None, upd_data_sources = None, upd_data = None,
                      upd_layout = None\<rparr>,
                     data_sources model1, False)
            \<and> plotly_update env pane model1 = Inr model1)
         \<and> (init_params env pane = Inr model2 \<longrightarrow>
            compute_updates pane model2 json
              = Inr (\<lparr>upd_sizing_mode = fixed_after_init pane (fig_layout json),
                      upd_data_sources = None, upd_data = None, upd_layout = None\<rparr>,
                     data_sources model2, False)
            \<and> plotly_update env pane model2
              = Inr (if fixed_after_init pane (fig_layout json) = None then model2
                     else model2\<lparr>model_sizing_mode := Some ''fixed'',
                                 render_count := render_count model2 + 1\<rparr>))"
proof (intro conjI impI)
  assume first: "plotly_update env pane model0 = Inr model1"
  from rerender_after_update [OF first obj w st]
  show "compute_updates pane model1 json
              = Inr (\<lparr>upd_sizing_mode = None, upd_data_sources = None, upd_data = None,
                      upd_layout = None\<rparr>,
                     data_sources model1, False)"
    and "plotly_update env pane model1 = Inr model1" by simp_all
next
  assume first: "init_params env pane = Inr model2"
  from rerender_after_init [OF first obj w st]
  show "compute_updates pane model2 json
              = Inr (\<lparr>upd_sizing_mode = fixed_after_init pane (fig_layout json),
                      upd_data_sources = None, upd_data = None, upd_layout = None\<rparr>,
                     data_sources model2, False)"
    and "plotly_update env pane model2
              = Inr (if fixed_after_init pane (fig_layout json) = None then model2
                     else model2\<lparr>model_sizing_mode := Some ''fixed'',
                                 render_count := render_count model2 + 1\<rparr>)" by simp_all
qed

theorem identical_figure_rerender_witness:
  "stable_figure \<lparr>fig_data = [bar_trace, bar_trace], fig_layout = [(''autosize'', PBool True)]\<rparr>
   \<and> plotly_update sample_env
     (sample_pane (Some \<lparr>fig_data = [bar_trace, bar_trace], fig_layout = [(''autosize'', PBool True)]\<rparr>))
     empty_model
   = Inr \<lparr>data = [[(''type'', PStr ''bar'')], [(''type'', PStr ''bar'')]],
          layout = [(''autosize'', PBool True)],
          data_sources = [[(''y'', PyList [NdArray [2] [NInt 1, NInt 2]])],
                          [(''y'', PyList [NdArray [2] [NInt 1, NInt 2]])]],
          model_sizing_mode = Some ''stretch_both'', render_count = 1\<rparr>
   \<and> plotly_update sample_env
     (sample_pane (Some \<lparr>fig_data = [bar_trace, bar_trace], fig_layout = [(''autosize'', PBool True)]\<rparr>))
     \<lparr>data = [[(''type'', PStr ''bar'')], [(''type'', PStr ''bar'')]],
      layout = [(''autosize'', PBool True)],
      data_sources = [[(''y'', PyList [NdArray [2] [NInt 1, NInt 2]])],
                      [(''y'', PyList [NdArray [2] [NInt 1, NInt 2]])]],
      model_sizing_mode = Some ''stretch_both'', render_count = 1\<rparr>
   = Inr \<lparr>data = [[(''type'', PStr ''bar'')], [(''type'', PStr ''bar'')]],
          layout = [(''autosize'', PBool True)],
          data_sources = [[(''y'', PyList [NdArray [2] [NInt 1, NInt 2]])],
                          [(''y'', PyList [NdArray [2] [NInt 1, NInt 2]])]],
          model_sizing_mode = Some ''stretch_both'', render_count = 1\<rparr>
   \<and> init_params sample_env
     (sample_pane (Some \<lparr>fig_data = [bar_trace, bar_trace], fig_layout = [(''autosize'', PBool True)]\<rparr>))
   = Inr \<lparr>data = [[(''type'', PStr ''bar'')], [(''type'', PStr ''bar'')]],
          layout = [(''autosize'', PBool True)],
          data_sources = [[(''y'', PyList [NdArray [2] [NInt 1, NInt 2]])],
                          [(''y'', PyList [NdArray [2] [NInt 1, NInt 2]])]],
          model_sizing_mode = Some ''stretch_both'', render_count = 0\<rparr>
   \<and> plotly_update sample_env
     (sample_pane (Some \<lparr>fig_data = [bar_trace, bar_trace], fig_layout = [(''autosize'', PBool True)]\<rparr>))
     \<lparr>data = [[(''type'', PStr ''bar'')], [(''type'', PStr ''bar'')]],
      layout = [(''autosize'', PBool True)],
      data_sources = [[(''y'', PyList [NdArray [2] [NInt 1, NInt 2]])],
                      [(''y'', PyList [NdArray [2] [NInt 1, NInt 2]])]],
      model_sizing_mode = Some ''stretch_both'', render_count = 0\<rparr>
   = Inr \<lparr>data = [[(''type'', PStr ''bar'')], [(''type'', PStr ''bar'')]],
          layout = [(''autosize'', PBool True)],
          data_sources = [[(''y'', PyList [NdArray [2] [NInt 1, NInt 2]])],
                          [(''y'', PyList [NdArray [2] [NInt 1, NInt 2]])]],
          model_sizing_mode = Some ''stretch_both'', render_count = 0\<rparr>"
proof -
  let ?fig = "\<lparr>fig_data = [bar_trace, bar_trace], fig_layout = [(''autosize'', PBool True)]\<rparr>"
  let ?m = "\<lparr>data = [[(''type'', PStr ''bar'')], [(''type'', PStr ''bar'')]],
          layout = [(''autosize'', PBool True)],
          data_sources = [[(''y'', PyList [NdArray [2] [NInt 1, NInt 2]])],
                          [(''y'', PyList [NdArray [2] [NInt 1, NInt 2]])]],
          model_sizing_mode = Some ''stretch_both'', render_count = 1\<rparr>"
  have first: "plotly_update sample_env (sample_pane (Some ?fig)) empty_model = Inr ?m"
    by (simp add: plotly_update_def sample_pane_def sample_env_def plotly_json_wrapper_def
      normalize_value_def compute_updates_def update_data_sources_def full_path_of_def
      array_changed_def differs_def without_uid_def sizing_update_def apply_updates_def
      no_updates_def empty_model_def Let_def np_ne_def bar_trace_def)
  have init: "init_params sample_env (sample_pane (Some ?fig)) = Inr (?m\<lparr>render_count := 0\<rparr>)"
    by (simp add: init_params_def sample_pane_def sample_env_def plotly_json_wrapper_def
      normalize_value_def full_path_of_def bar_trace_def)
  have obj: "object (sample_pane (Some ?fig)) = Some ?fig" by (simp add: sample_pane_def)
  have w: "plotly_json_wrapper sample_env ?fig = Inr ?fig"
    by (simp add: plotly_json_wrapper_def normalize_value_def sample_env_def bar_trace_def)
  have st: "stable_figure ?fig"
    by (simp add: stable_figure_def stable_trace_def bar_trace_def full_path_of_def)
  have fx: "fixed_after_init (sample_pane (Some ?fig)) (fig_layout ?fig) = None"
    by (simp add: fixed_after_init_def)
  from identical_figure_rerender [OF obj w st, of empty_model ?m "?m\<lparr>render_count := 0\<rparr>"]
    first init st fx
  show ?thesis by simp
qed

end
